theory Spec2Isabelle
  imports Main "HOL-Library.Finite_Map"
begin

section \<open>Python values and exceptions\<close>

text \<open>
  The module \<^verbatim>\<open>wickit/shuffle.py\<close> reads health payloads with \<^verbatim>\<open>json.loads\<close> and stores
  what it finds in the fields of \<^verbatim>\<open>ServiceInfo\<close> without checking the annotated types, so
  the fields hold arbitrary Python values. \<open>pyval\<close> represents these values up to Python's
  \<^verbatim>\<open>==\<close>: \<^verbatim>\<open>True\<close> and \<^verbatim>\<open>False\<close> are the numbers 1 and 0 (\<^verbatim>\<open>bool\<close> is a subclass of
  \<^verbatim>\<open>int\<close>), a dict is a finite map with string keys (JSON object keys are strings), so
  that equality of \<open>pyval\<close> is \<^verbatim>\<open>==\<close>. Numbers are integers: floats are not represented.
\<close>

datatype pyval =
    PNone
  | PNum int
  | PStr string
  | PList "pyval list"
  | PDict "(string, pyval) fmap"

datatype py_error =
    URLError
  | JSONDecodeError
  | KeyError
  | ValueError
  | TypeError
  | AttributeError
  | ImportError
  | OSError
  | OverflowError
  | NoAvailablePortError

text \<open>Sequencing of computations that may raise: the first exception wins.\<close>

definition bind_err :: "py_error + 'a \<Rightarrow> ('a \<Rightarrow> py_error + 'b) \<Rightarrow> py_error + 'b" where
  "bind_err m f = (case m of Inl e \<Rightarrow> Inl e | Inr x \<Rightarrow> f x)"

text \<open>\<^verbatim>\<open>d.get(k)\<close> on a dict: the value, or \<^verbatim>\<open>None\<close> for a missing key.\<close>

definition dict_get :: "(string, pyval) fmap \<Rightarrow> string \<Rightarrow> pyval" where
  "dict_get d k = (case fmlookup d k of None \<Rightarrow> PNone | Some v \<Rightarrow> v)"

text \<open>\<^verbatim>\<open>data.get(k)\<close> on any value: only a dict has the method.\<close>

definition py_get :: "pyval \<Rightarrow> string \<Rightarrow> py_error + pyval" where
  "py_get data k = (case data of PDict d \<Rightarrow> Inr (dict_get d k) | _ \<Rightarrow> Inl AttributeError)"

text \<open>\<^verbatim>\<open>data[k]\<close> with a string key: \<^verbatim>\<open>KeyError\<close> for a missing key of a dict,
  \<^verbatim>\<open>TypeError\<close> for a value that is not a dict.\<close>

definition py_item :: "pyval \<Rightarrow> string \<Rightarrow> py_error + pyval" where
  "py_item data k =
     (case data of
        PDict d \<Rightarrow> (case fmlookup d k of None \<Rightarrow> Inl KeyError | Some v \<Rightarrow> Inr v)
      | _ \<Rightarrow> Inl TypeError)"

section \<open>ServiceInfo\<close>

text \<open>\<^verbatim>\<open>datetime\<close> values of the standard library (naive, to the second).\<close>

record datetime =
  year :: int
  month :: int
  day :: int
  hour :: int
  minute :: int
  second :: int

record ServiceInfo =
  service_id :: pyval
  port :: pyval
  instance_id :: pyval
  pid :: pyval
  project_context :: pyval
  verification_token :: pyval
  start_time :: datetime
  status :: pyval

section \<open>ServiceVerifier\<close>

text \<open>\<^verbatim>\<open>verify_service_identity\<close>: the list \<^verbatim>\<open>checks\<close> holds the four comparisons,
  \<^verbatim>\<open>all(checks)\<close> is their conjunction.\<close>

definition verify_service_identity :: "ServiceInfo \<Rightarrow> ServiceInfo \<Rightarrow> bool" where
  "verify_service_identity expected_service discovered_service =
     list_all id
       [service_id expected_service = service_id discovered_service,
        instance_id expected_service = instance_id discovered_service,
        pid expected_service = pid discovered_service,
        verification_token expected_service = verification_token discovered_service]"

section \<open>ServiceDiscovery\<close>

text \<open>
  What one health request gives: \<^verbatim>\<open>json.loads(urlopen(request, timeout).read().decode())\<close>
  either raises (\<^verbatim>\<open>URLError\<close> for a port that does not answer or answers with an HTTP
  error, \<^verbatim>\<open>JSONDecodeError\<close> for a body that is not JSON) or returns the decoded value.
  A port layout maps every port to the answer of its health endpoint.
\<close>

datatype response = Raises py_error | Body pyval

type_synonym layout = "int \<Rightarrow> response"

text \<open>
  \<^verbatim>\<open>datetime.fromisoformat\<close> is a library function: the parser of strings is a parameter
  \<open>parse\<close> of the model (\<open>None\<close> where the library raises \<^verbatim>\<open>ValueError\<close>). An argument that
  is not a string raises \<^verbatim>\<open>TypeError\<close>.
\<close>

type_synonym isoparser = "string \<Rightarrow> datetime option"

definition fromisoformat :: "isoparser \<Rightarrow> pyval \<Rightarrow> py_error + datetime" where
  "fromisoformat parse v =
     (case v of
        PStr s \<Rightarrow> (case parse s of None \<Rightarrow> Inl ValueError | Some t \<Rightarrow> Inr t)
      | _ \<Rightarrow> Inl TypeError)"

text \<open>The constructor call \<^verbatim>\<open>ServiceInfo(service_id=data['service'], ...)\<close>, written the
  same way in \<^verbatim>\<open>discover_service\<close> and in \<^verbatim>\<open>_monitor_loop\<close>: the keyword arguments are
  evaluated in the order they are written, the first failure raises.\<close>

definition service_info_of :: "isoparser \<Rightarrow> pyval \<Rightarrow> py_error + ServiceInfo" where
  "service_info_of parse data =
     bind_err (py_item data ''service'') (\<lambda>v_service.
     bind_err (py_item data ''port'') (\<lambda>v_port.
     bind_err (py_item data ''instance_id'') (\<lambda>v_instance.
     bind_err (py_item data ''pid'') (\<lambda>v_pid.
     bind_err (py_item data ''project_context'') (\<lambda>v_context.
     bind_err (py_item data ''verification_token'') (\<lambda>v_token.
     bind_err (py_item data ''start_time'') (\<lambda>v_start.
     bind_err (fromisoformat parse v_start) (\<lambda>t.
     bind_err (py_item data ''status'') (\<lambda>v_status.
       Inr \<lparr>service_id = v_service, port = v_port, instance_id = v_instance,
            pid = v_pid, project_context = v_context, verification_token = v_token,
            start_time = t, status = v_status\<rparr>)))))))))"

text \<open>
  \<^verbatim>\<open>all(project_context.get(key) == service_info.project_context.get(key)
        for key in project_context.keys())\<close>.
  \<^verbatim>\<open>keys()\<close> needs the expected context to be a dict; the candidate's context is asked
  \<^verbatim>\<open>.get\<close> only when there is a key to compare.
\<close>

definition context_matches :: "pyval \<Rightarrow> pyval \<Rightarrow> py_error + bool" where
  "context_matches project_context_exp candidate_context =
     (case project_context_exp of
        PDict e \<Rightarrow>
          if fmdom e = {||} then Inr True
          else (case candidate_context of
                  PDict c \<Rightarrow> Inr (\<forall>key \<in> fset (fmdom e). dict_get e key = dict_get c key)
                | _ \<Rightarrow> Inl AttributeError)
      | _ \<Rightarrow> Inl AttributeError)"

text \<open>The body of the \<^verbatim>\<open>try\<close> for one port: \<open>Inr (Some info)\<close> is \<^verbatim>\<open>return service_info\<close>,
  \<open>Inr None\<close> falls through to the next port, \<open>Inl e\<close> raises \<open>e\<close>.\<close>

definition probe_candidate ::
  "isoparser \<Rightarrow> pyval \<Rightarrow> pyval \<Rightarrow> response \<Rightarrow> py_error + ServiceInfo option" where
  "probe_candidate parse expected_service_id project_context_exp r =
     (case r of
        Raises e \<Rightarrow> Inl e
      | Body data \<Rightarrow>
          bind_err (py_get data ''service'') (\<lambda>v_service.
            if v_service \<noteq> expected_service_id then Inr None
            else bind_err (py_get data ''status'') (\<lambda>v_status.
              if v_status \<noteq> PStr ''healthy'' then Inr None
              else bind_err (service_info_of parse data) (\<lambda>info.
                bind_err (context_matches project_context_exp (project_context info)) (\<lambda>ok.
                  Inr (if ok then Some info else None))))))"

text \<open>The exceptions named by the \<^verbatim>\<open>except\<close> clauses of \<^verbatim>\<open>discover_service\<close> and
  \<^verbatim>\<open>_monitor_loop\<close>.\<close>

definition caught :: "py_error \<Rightarrow> bool" where
  "caught e = (e = URLError \<or> e = JSONDecodeError \<or> e = KeyError)"

text \<open>The \<^verbatim>\<open>for\<close> loop over the ports. The first component lists the ports probed, in
  the order of the requests.\<close>

fun scan_ports ::
  "isoparser \<Rightarrow> pyval \<Rightarrow> pyval \<Rightarrow> layout \<Rightarrow> int list \<Rightarrow>
   int list \<times> (py_error + ServiceInfo option)" where
  "scan_ports parse sid ctx net [] = ([], Inr None)"
| "scan_ports parse sid ctx net (p # ps) =
     (case probe_candidate parse sid ctx (net p) of
        Inr (Some info) \<Rightarrow> ([p], Inr (Some info))
      | Inr None \<Rightarrow> (p # fst (scan_ports parse sid ctx net ps), snd (scan_ports parse sid ctx net ps))
      | Inl e \<Rightarrow>
          if caught e
          then (p # fst (scan_ports parse sid ctx net ps), snd (scan_ports parse sid ctx net ps))
          else ([p], Inl e))"

text \<open>\<^verbatim>\<open>ServiceDiscovery(port_range).discover_service(expected_service_id, project_context)\<close>
  on the port layout \<open>net\<close>; \<^verbatim>\<open>range(lo, hi + 1)\<close> is \<open>[lo..hi]\<close>.\<close>

definition discover_service ::
  "isoparser \<Rightarrow> int \<times> int \<Rightarrow> pyval \<Rightarrow> pyval \<Rightarrow> layout \<Rightarrow>
   int list \<times> (py_error + ServiceInfo option)" where
  "discover_service parse port_range expected_service_id project_context_exp net =
     scan_ports parse expected_service_id project_context_exp net
       [fst port_range .. snd port_range]"

text \<open>A port is passed over when the body of the \<^verbatim>\<open>try\<close> neither returns a record nor
  raises an exception that the \<^verbatim>\<open>except\<close> clause lets through.\<close>

definition rejected :: "isoparser \<Rightarrow> pyval \<Rightarrow> pyval \<Rightarrow> response \<Rightarrow> bool" where
  "rejected parse sid ctx r =
     (case probe_candidate parse sid ctx r of
        Inr None \<Rightarrow> True | Inr (Some info) \<Rightarrow> False | Inl e \<Rightarrow> caught e)"

section \<open>HealthMonitor\<close>

record ServiceChangeEvent =
  event_type :: string
  old_service :: ServiceInfo
  new_service :: "ServiceInfo option"

text \<open>
  What the monitor thread does, in order: a health request to the tracked port, the
  requests of a recovery scan, a call of \<^verbatim>\<open>on_change\<close> with an event, the sleep that
  ends a cycle.
\<close>

datatype action = HealthProbe | ScanProbe int | Fire ServiceChangeEvent | Sleep

text \<open>How a cycle ends: the loop goes on, the function returns, or an exception leaves it.\<close>

datatype control = Continue | Return | Raise py_error

text \<open>The caller's callback: what a call of \<^verbatim>\<open>on_change\<close> with an event raises, \<open>None\<close>
  when it returns.\<close>

type_synonym callback = "ServiceChangeEvent \<Rightarrow> py_error option"

text \<open>\<^verbatim>\<open>_handle_service_down\<close>. \<^verbatim>\<open>self.service_info.port - 10\<close> needs a number. A
  \<^verbatim>\<open>ServiceInfo\<close> object is always true, so \<^verbatim>\<open>if new_service\<close> tests for \<^verbatim>\<open>None\<close>. The
  second component is the exception that leaves the method, raised by the scan or by
  the callback.\<close>

definition handle_service_down ::
  "isoparser \<Rightarrow> ServiceInfo \<Rightarrow> layout \<Rightarrow> callback \<Rightarrow> action list \<times> py_error option" where
  "handle_service_down parse tracked net cb =
     (case port tracked of
        PNum p \<Rightarrow>
          (case discover_service parse (p - 10, p + 10)
                  (service_id tracked) (project_context tracked) net of
             (probed, Inl e) \<Rightarrow> (map ScanProbe probed, Some e)
           | (probed, Inr (Some found)) \<Rightarrow>
               (map ScanProbe probed @
                [Fire \<lparr>event_type = ''recovery'', old_service = tracked,
                       new_service = Some found\<rparr>],
                cb \<lparr>event_type = ''recovery'', old_service = tracked,
                    new_service = Some found\<rparr>)
           | (probed, Inr None) \<Rightarrow>
               (map ScanProbe probed @
                [Fire \<lparr>event_type = ''disconnected'', old_service = tracked,
                       new_service = None\<rparr>],
                cb \<lparr>event_type = ''disconnected'', old_service = tracked,
                    new_service = None\<rparr>))
      | _ \<Rightarrow> ([], Some TypeError))"

text \<open>The body of the \<^verbatim>\<open>try\<close> in \<^verbatim>\<open>_monitor_loop\<close> up to the call of the callback:
  \<open>Inr (Some ev)\<close> is the restart event that the \<^verbatim>\<open>if\<close> branch passes to \<^verbatim>\<open>on_change\<close>,
  \<open>Inr None\<close> leaves the \<^verbatim>\<open>if\<close> untaken.\<close>

definition check_health ::
  "isoparser \<Rightarrow> ServiceInfo \<Rightarrow> response \<Rightarrow> py_error + ServiceChangeEvent option" where
  "check_health parse tracked r =
     (case r of
        Raises e \<Rightarrow> Inl e
      | Body data \<Rightarrow>
          bind_err (py_get data ''instance_id'') (\<lambda>v_instance.
          bind_err (if v_instance \<noteq> instance_id tracked then Inr True
                    else bind_err (py_get data ''pid'') (\<lambda>v_pid. Inr (v_pid \<noteq> pid tracked)))
            (\<lambda>changed.
              if changed
              then bind_err (service_info_of parse data) (\<lambda>observed.
                     Inr (Some \<lparr>event_type = ''restart'', old_service = tracked,
                                new_service = Some observed\<rparr>))
              else Inr None)))"

text \<open>One polling cycle sees the answer to its health request, if it scans the port
  layout of that moment, and what the callback does when it is called; \<open>running\<close> is
  the value of \<^verbatim>\<open>is_monitoring\<close> that the \<^verbatim>\<open>while\<close> test reads (another thread may have
  cleared it).\<close>

record cycle =
  running :: bool
  health :: response
  world :: layout
  on_change :: callback

text \<open>The \<^verbatim>\<open>except\<close> branch and what follows it: \<^verbatim>\<open>_handle_service_down\<close>, then the sleep
  and the next iteration. \<open>before\<close> is what the cycle has done so far.\<close>

definition service_down ::
  "isoparser \<Rightarrow> ServiceInfo \<Rightarrow> cycle \<Rightarrow> action list \<Rightarrow> action list \<times> control" where
  "service_down parse tracked c before =
     (case handle_service_down parse tracked (world c) (on_change c) of
        (acts, None) \<Rightarrow> (before @ acts @ [Sleep], Continue)
      | (acts, Some e) \<Rightarrow> (before @ acts, Raise e))"

text \<open>The body of the \<^verbatim>\<open>while\<close> loop. The call of \<^verbatim>\<open>on_change\<close> with the restart event
  stands inside the \<^verbatim>\<open>try\<close>: an exception of the callback that the \<^verbatim>\<open>except\<close> clause
  names leads into the \<^verbatim>\<open>except\<close> branch, any other leaves the loop, and only a
  callback that returns is followed by the \<^verbatim>\<open>return\<close>.\<close>

definition monitor_cycle ::
  "isoparser \<Rightarrow> ServiceInfo \<Rightarrow> cycle \<Rightarrow> action list \<times> control" where
  "monitor_cycle parse tracked c =
     (case check_health parse tracked (health c) of
        Inr (Some ev) \<Rightarrow>
          (case on_change c ev of
             None \<Rightarrow> ([HealthProbe, Fire ev], Return)
           | Some e \<Rightarrow>
               if caught e then service_down parse tracked c [HealthProbe, Fire ev]
               else ([HealthProbe, Fire ev], Raise e))
      | Inr None \<Rightarrow> ([HealthProbe, Sleep], Continue)
      | Inl e \<Rightarrow>
          if caught e then service_down parse tracked c [HealthProbe]
          else ([HealthProbe], Raise e))"

text \<open>How a run over finitely many observed cycles ends: still in the loop (\<open>Polling\<close>),
  left through the \<^verbatim>\<open>while\<close> test (\<open>Stopped\<close>), by \<^verbatim>\<open>return\<close>, or by an exception.\<close>

datatype loop_end = Polling | Stopped | Returned | Raised py_error

text \<open>\<^verbatim>\<open>_monitor_loop\<close>. The tracked record \<^verbatim>\<open>self.service_info\<close> is never assigned in the
  loop.\<close>

fun monitor_loop ::
  "isoparser \<Rightarrow> ServiceInfo \<Rightarrow> cycle list \<Rightarrow> action list \<times> loop_end" where
  "monitor_loop parse tracked [] = ([], Polling)"
| "monitor_loop parse tracked (c # cs) =
     (if \<not> running c then ([], Stopped)
      else (case monitor_cycle parse tracked c of
              (acts, Continue) \<Rightarrow>
                (acts @ fst (monitor_loop parse tracked cs), snd (monitor_loop parse tracked cs))
            | (acts, Return) \<Rightarrow> (acts, Returned)
            | (acts, Raise e) \<Rightarrow> (acts, Raised e)))"

text \<open>The events that the callback was called with, read off a log of actions.\<close>

fun fired :: "action list \<Rightarrow> ServiceChangeEvent list" where
  "fired [] = []"
| "fired (Fire ev # acts) = ev # fired acts"
| "fired (a # acts) = fired acts"

section \<open>ServiceRegistry\<close>

record ServiceRegistry =
  registry_service_id :: string
  port_range :: "int \<times> int"
  registry_context :: "(string, pyval) fmap"
  mdns_name :: "string option"
  service_info :: "ServiceInfo option"
  zeroconf :: bool
  zeroconf_info :: bool

text \<open>\<^verbatim>\<open>__init__\<close>; \<^verbatim>\<open>project_context or {}\<close> is the empty dict for \<^verbatim>\<open>None\<close>. The fields
  \<open>zeroconf\<close> and \<open>zeroconf_info\<close> say whether \<^verbatim>\<open>self._zeroconf\<close> and
  \<^verbatim>\<open>self._service_info\<close> hold an object.\<close>

definition ServiceRegistry_init ::
  "string \<Rightarrow> int \<times> int \<Rightarrow> (string, pyval) fmap option \<Rightarrow> string option \<Rightarrow> ServiceRegistry" where
  "ServiceRegistry_init sid rng ctx name =
     \<lparr>registry_service_id = sid, port_range = rng,
      registry_context = (case ctx of None \<Rightarrow> fmempty | Some c \<Rightarrow> c),
      mdns_name = name, service_info = None, zeroconf = False, zeroconf_info = False\<rparr>"

text \<open>
  What the registry asks of the machine it runs on: whether the bind of
  \<^verbatim>\<open>_is_port_available\<close> succeeds on a port number (\<open>False\<close> is its \<^verbatim>\<open>OSError\<close>), the two values
  of \<^verbatim>\<open>uuid.uuid4()\<close>, \<^verbatim>\<open>os.getpid()\<close>, \<^verbatim>\<open>datetime.now()\<close>, the exception that the body
  of the \<^verbatim>\<open>try\<close> in \<^verbatim>\<open>_register_mdns\<close> raises (\<^verbatim>\<open>ImportError\<close> when zeroconf is not
  installed, \<open>None\<close> when the service is registered), the exception that
  \<^verbatim>\<open>unregister_service\<close> or \<^verbatim>\<open>close\<close> raises, and for \<^verbatim>\<open>health_response\<close> the uptime in
  seconds since a start time and \<^verbatim>\<open>isoformat\<close>.
\<close>

record host =
  bindable :: "int \<Rightarrow> bool"
  uuid_first :: string
  uuid_second :: string
  getpid :: int
  now :: datetime
  mdns_register :: "py_error option"
  mdns_unregister :: "py_error option"
  uptime_seconds :: "datetime \<Rightarrow> pyval"
  isoformat :: "datetime \<Rightarrow> string"

text \<open>\<^verbatim>\<open>_is_port_available\<close>: \<^verbatim>\<open>sock.bind\<close> raises \<^verbatim>\<open>OverflowError\<close> for a port outside
  0 to 65535, which \<^verbatim>\<open>except OSError\<close> does not catch; for a port number the method
  returns whether the bind succeeded.\<close>

definition is_port_available :: "host \<Rightarrow> int \<Rightarrow> py_error + bool" where
  "is_port_available h p =
     (if p < 0 \<or> 65535 < p then Inl OverflowError else Inr (bindable h p))"

text \<open>The loop of \<^verbatim>\<open>_find_available_port\<close>, with the list of the ports it tried to
  bind.\<close>

fun first_available :: "host \<Rightarrow> int list \<Rightarrow> int list \<times> (py_error + int)" where
  "first_available h [] = ([], Inl NoAvailablePortError)"
| "first_available h (p # ps) =
     (case is_port_available h p of
        Inl e \<Rightarrow> ([p], Inl e)
      | Inr True \<Rightarrow> ([p], Inr p)
      | Inr False \<Rightarrow> (p # fst (first_available h ps), snd (first_available h ps)))"

definition find_available_port :: "host \<Rightarrow> ServiceRegistry \<Rightarrow> int list \<times> (py_error + int)" where
  "find_available_port h reg =
     first_available h [fst (port_range reg) .. snd (port_range reg)]"

text \<open>The first statement of \<^verbatim>\<open>start\<close>:
  \<^verbatim>\<open>if preferred_port and self._is_port_available(preferred_port)\<close>. The truth test of
  an integer is \<open>p \<noteq> 0\<close>, and \<^verbatim>\<open>and\<close> binds the preferred port only when that holds.\<close>

definition choose_port ::
  "host \<Rightarrow> ServiceRegistry \<Rightarrow> int option \<Rightarrow> int list \<times> (py_error + int)" where
  "choose_port h reg preferred_port =
     (case preferred_port of
        None \<Rightarrow> find_available_port h reg
      | Some p \<Rightarrow>
          if p = 0 then find_available_port h reg
          else (case is_port_available h p of
                  Inl e \<Rightarrow> ([p], Inl e)
                | Inr True \<Rightarrow> ([p], Inr p)
                | Inr False \<Rightarrow>
                    (p # fst (find_available_port h reg), snd (find_available_port h reg))))"

text \<open>\<^verbatim>\<open>_register_mdns\<close>: only \<^verbatim>\<open>ImportError\<close> is caught.\<close>

definition register_mdns :: "host \<Rightarrow> ServiceRegistry \<Rightarrow> ServiceRegistry \<times> py_error option" where
  "register_mdns h reg =
     (case mdns_register h of
        None \<Rightarrow> (reg\<lparr>zeroconf := True, zeroconf_info := True\<rparr>, None)
      | Some e \<Rightarrow> if e = ImportError then (reg, None) else (reg, Some e))"

text \<open>The record that \<^verbatim>\<open>start\<close> builds for the port it has chosen.\<close>

definition new_service_info :: "host \<Rightarrow> ServiceRegistry \<Rightarrow> int \<Rightarrow> ServiceInfo" where
  "new_service_info h reg p =
     \<lparr>service_id = PStr (registry_service_id reg), port = PNum p,
      instance_id = PStr (uuid_first h), pid = PNum (getpid h),
      project_context = PDict (registry_context reg),
      verification_token = PStr (uuid_second h),
      start_time = now h, status = PStr ''healthy''\<rparr>"

text \<open>\<^verbatim>\<open>start\<close>: the ports it tried to bind, the registry afterwards, and the record it
  returns or the exception it raises. \<^verbatim>\<open>if self.mdns_name\<close> holds for a non-empty
  string.\<close>

definition start ::
  "host \<Rightarrow> ServiceRegistry \<Rightarrow> int option \<Rightarrow>
   int list \<times> ServiceRegistry \<times> (py_error + ServiceInfo)" where
  "start h reg preferred_port =
     (case choose_port h reg preferred_port of
        (tried, Inl e) \<Rightarrow> (tried, reg, Inl e)
      | (tried, Inr p) \<Rightarrow>
          (let info = new_service_info h reg p;
               reg1 = reg\<lparr>service_info := Some info\<rparr>
           in if mdns_name reg \<noteq> None \<and> mdns_name reg \<noteq> Some []
              then (case register_mdns h reg1 of
                      (reg2, None) \<Rightarrow> (tried, reg2, Inr info)
                    | (reg2, Some e) \<Rightarrow> (tried, reg2, Inl e))
              else (tried, reg1, Inr info)))"

text \<open>\<^verbatim>\<open>health_response\<close>: \<^verbatim>\<open>not self.service_info\<close> holds exactly for \<^verbatim>\<open>None\<close>.\<close>

definition health_response :: "host \<Rightarrow> ServiceRegistry \<Rightarrow> pyval" where
  "health_response h reg =
     (case service_info reg of
        None \<Rightarrow> PDict (fmap_of_list [(''error'', PStr ''Service not started'')])
      | Some info \<Rightarrow>
          PDict (fmap_of_list
            [(''service'', service_id info),
             (''status'', status info),
             (''port'', port info),
             (''instance_id'', instance_id info),
             (''pid'', pid info),
             (''verification_token'', verification_token info),
             (''project_context'', project_context info),
             (''mdns'', (case mdns_name reg of None \<Rightarrow> PNone | Some n \<Rightarrow> PStr n)),
             (''uptime_seconds'', uptime_seconds h (start_time info)),
             (''start_time'', PStr (isoformat h (start_time info)))]))"

text \<open>\<^verbatim>\<open>stop\<close>: \<open>None\<close> when it returns, \<open>Some e\<close> when it raises \<open>e\<close>. The calls are not
  inside a \<^verbatim>\<open>try\<close>.\<close>

definition stop :: "host \<Rightarrow> ServiceRegistry \<Rightarrow> py_error option" where
  "stop h reg = (if zeroconf reg \<and> zeroconf_info reg then mdns_unregister h else None)"

section \<open>Example data\<close>

text \<open>An instance of the parser parameter: timestamps \<^verbatim>\<open>YYYY-MM-DDTHH:MM:SS\<close>, the form
  that \<^verbatim>\<open>isoformat()\<close> prints for a whole second.\<close>

definition digit_value :: "char \<Rightarrow> int option" where
  "digit_value c = map_of (zip ''0123456789'' [0, 1, 2, 3, 4, 5, 6, 7, 8, 9]) c"

fun number_of :: "int \<Rightarrow> string \<Rightarrow> int option" where
  "number_of acc [] = Some acc"
| "number_of acc (c # cs) =
     (case digit_value c of None \<Rightarrow> None | Some d \<Rightarrow> number_of (10 * acc + d) cs)"

definition days_in_month :: "int \<Rightarrow> int \<Rightarrow> int" where
  "days_in_month y m =
     (if m = 2 then (if y mod 4 = 0 \<and> (y mod 100 \<noteq> 0 \<or> y mod 400 = 0) then 29 else 28)
      else if m = 4 \<or> m = 6 \<or> m = 9 \<or> m = 11 then 30 else 31)"

definition iso_seconds :: isoparser where
  "iso_seconds s =
     (if length s = 19 \<and> s ! 4 = CHR ''-'' \<and> s ! 7 = CHR ''-'' \<and> s ! 10 = CHR ''T'' \<and>
         s ! 13 = CHR '':'' \<and> s ! 16 = CHR '':''
      then (case (number_of 0 (take 4 s), number_of 0 (take 2 (drop 5 s)),
                  number_of 0 (take 2 (drop 8 s)), number_of 0 (take 2 (drop 11 s)),
                  number_of 0 (take 2 (drop 14 s)), number_of 0 (take 2 (drop 17 s))) of
              (Some y, Some mo, Some d, Some h, Some mi, Some se) \<Rightarrow>
                if 1 \<le> y \<and> 1 \<le> mo \<and> mo \<le> 12 \<and> 1 \<le> d \<and> d \<le> days_in_month y mo \<and>
                   h < 24 \<and> mi < 60 \<and> se < 60
                then Some \<lparr>year = y, month = mo, day = d, hour = h, minute = mi, second = se\<rparr>
                else None
            | _ \<Rightarrow> None)
      else None)"

definition noon :: datetime where
  "noon = \<lparr>year = 2024, month = 5, day = 1, hour = 12, minute = 0, second = 0\<rparr>"

text \<open>A health payload as \<^verbatim>\<open>health_response\<close> renders it (without \<^verbatim>\<open>mdns\<close> and
  \<^verbatim>\<open>uptime_seconds\<close>, which no reader uses).\<close>

definition payload :: "string \<Rightarrow> int \<Rightarrow> string \<Rightarrow> int \<Rightarrow> (string \<times> pyval) list \<Rightarrow> string \<Rightarrow> pyval" where
  "payload sid prt inst p ctx started =
     PDict (fmap_of_list
       [(''service'', PStr sid), (''status'', PStr ''healthy''), (''port'', PNum prt),
        (''instance_id'', PStr inst), (''pid'', PNum p),
        (''verification_token'', PStr ''tok''),
        (''project_context'', PDict (fmap_of_list ctx)),
        (''start_time'', PStr started)])"

definition record_of :: "string \<Rightarrow> int \<Rightarrow> string \<Rightarrow> int \<Rightarrow> (string \<times> pyval) list \<Rightarrow> ServiceInfo" where
  "record_of sid prt inst p ctx =
     \<lparr>service_id = PStr sid, port = PNum prt, instance_id = PStr inst, pid = PNum p,
      project_context = PDict (fmap_of_list ctx), verification_token = PStr ''tok'',
      start_time = noon, status = PStr ''healthy''\<rparr>"

definition nobody :: layout where
  "nobody p = Raises URLError"

text \<open>A callback that returns, and one whose handling of an event fails on a missing
  dict key.\<close>

definition returns :: callback where
  "returns ev = None"

definition fails_on_key :: callback where
  "fails_on_key ev = Some KeyError"

text \<open>A health response of another instance that has only four of the fields.\<close>

definition short_payload :: pyval where
  "short_payload =
     PDict (fmap_of_list
       [(''service'', PStr ''api''), (''status'', PStr ''healthy''),
        (''instance_id'', PStr ''i-2''), (''pid'', PNum 42)])"

text \<open>A record tracked by a monitor, and polling cycles: the same instance answers;
  another instance answers on the tracked port; the tracked port is dead and the service
  answers on port 7775; nothing answers anywhere; another instance answers with the
  short payload and no other port answers; another instance answers and the callback
  fails.\<close>

definition tracked_api :: ServiceInfo where
  "tracked_api = record_of ''api'' 7770 ''i-1'' 41 []"

definition same_instance_cycle :: cycle where
  "same_instance_cycle =
     \<lparr>running = True,
      health = Body (payload ''api'' 7770 ''i-1'' 41 [] ''2024-05-01T12:00:00''),
      world = nobody, on_change = returns\<rparr>"

definition restarted_cycle :: cycle where
  "restarted_cycle =
     \<lparr>running = True,
      health = Body (payload ''api'' 7770 ''i-2'' 42 [] ''2024-05-01T12:00:00''),
      world = nobody, on_change = returns\<rparr>"

definition moved_cycle :: cycle where
  "moved_cycle =
     \<lparr>running = True, health = Raises URLError,
      world = (\<lambda>p. if p = 7775
                    then Body (payload ''api'' 7775 ''i-2'' 42 [] ''2024-05-01T12:00:00'')
                    else Raises URLError),
      on_change = returns\<rparr>"

definition gone_cycle :: cycle where
  "gone_cycle =
     \<lparr>running = True, health = Raises URLError, world = nobody, on_change = returns\<rparr>"

definition short_payload_cycle :: cycle where
  "short_payload_cycle =
     \<lparr>running = True, health = Body short_payload, world = nobody, on_change = returns\<rparr>"

definition failing_callback_cycle :: cycle where
  "failing_callback_cycle =
     \<lparr>running = True,
      health = Body (payload ''api'' 7770 ''i-2'' 42 [] ''2024-05-01T12:00:00''),
      world = nobody, on_change = fails_on_key\<rparr>"

text \<open>A machine on which the ports of \<open>taken\<close> are bound by others, with the two
  outcomes of the announcement calls; and a registry for the range 7770 to 7779.\<close>

definition demo_host :: "int list \<Rightarrow> py_error option \<Rightarrow> py_error option \<Rightarrow> host" where
  "demo_host taken reg_exn unreg_exn =
     \<lparr>bindable = (\<lambda>p. p \<notin> set taken), uuid_first = ''u-1'', uuid_second = ''u-2'',
      getpid = 41, now = noon, mdns_register = reg_exn, mdns_unregister = unreg_exn,
      uptime_seconds = (\<lambda>t. PNum 0), isoformat = (\<lambda>t. ''2024-05-01T12:00:00'')\<rparr>"

definition demo_registry :: "string option \<Rightarrow> ServiceRegistry" where
  "demo_registry name = ServiceRegistry_init ''api'' (7770, 7779) None name"

section \<open>Identity verification\<close>

text \<open>
  Claim C5. For all service records \<open>a\<close> and \<open>b\<close>, the identity check returns true
  exactly when \<open>service_id\<close>, \<open>instance_id\<close>, \<open>pid\<close> and \<open>verification_token\<close> are pairwise
  equal (so any single mismatch gives false); it is reflexive and symmetric; and it does
  not depend on the \<open>port\<close> and \<open>project_context\<close> fields (nor on \<open>start_time\<close> and
  \<open>status\<close>).
\<close>

theorem verify_service_identity_spec:
  "(verify_service_identity a b =
      (service_id a = service_id b \<and> instance_id a = instance_id b \<and>
       pid a = pid b \<and> verification_token a = verification_token b)) \<and>
   verify_service_identity a a \<and>
   verify_service_identity a b = verify_service_identity b a \<and>
   verify_service_identity
     (a\<lparr>port := p, project_context := c, start_time := t, status := s\<rparr>)
     (b\<lparr>port := p', project_context := c', start_time := t', status := s'\<rparr>)
   = verify_service_identity a b"
  by (auto simp: verify_service_identity_def)

section \<open>Auxiliary facts\<close>

lemma bind_err_simps [simp]:
  "bind_err (Inl e) f = Inl e"
  "bind_err (Inr x) f = f x"
  by (simp_all add: bind_err_def)

lemma bind_err_Inr:
  "bind_err m f = Inr y \<longleftrightarrow> (\<exists>x. m = Inr x \<and> f x = Inr y)"
  by (cases m) simp_all

lemma py_item_Inr:
  "py_item data k = Inr v \<longleftrightarrow> (\<exists>d. data = PDict d \<and> fmlookup d k = Some v)"
  by (cases data) (auto simp: py_item_def split: option.splits)

lemma fromisoformat_Inr:
  "fromisoformat parse v = Inr t \<longleftrightarrow> (\<exists>s. v = PStr s \<and> parse s = Some t)"
  by (cases v) (auto simp: fromisoformat_def split: option.splits)

lemma dict_get_present:
  "dict_get c key \<noteq> PNone \<Longrightarrow> fmlookup c key = Some (dict_get c key)"
  by (auto simp: dict_get_def split: option.splits)

text \<open>A record is built only from a dict that has all eight keys and a start time that
  parses.\<close>

lemma service_info_of_fields:
  assumes "service_info_of parse data = Inr info"
  shows "\<exists>d st. data = PDict d \<and> fmlookup d ''service'' = Some (service_id info) \<and>
           fmlookup d ''port'' = Some (port info) \<and>
           fmlookup d ''instance_id'' = Some (instance_id info) \<and>
           fmlookup d ''pid'' = Some (pid info) \<and>
           fmlookup d ''project_context'' = Some (project_context info) \<and>
           fmlookup d ''verification_token'' = Some (verification_token info) \<and>
           fmlookup d ''start_time'' = Some (PStr st) \<and> parse st = Some (start_time info) \<and>
           fmlookup d ''status'' = Some (status info)"
  using assms
  by (auto simp: service_info_of_def bind_err_Inr py_item_Inr fromisoformat_Inr)

lemma probe_candidate_accept:
  assumes "probe_candidate parse sid ctx r = Inr (Some info)"
  shows "\<exists>data. r = Body data \<and> py_get data ''service'' = Inr sid \<and>
           py_get data ''status'' = Inr (PStr ''healthy'') \<and>
           service_info_of parse data = Inr info \<and>
           context_matches ctx (project_context info) = Inr True"
  using assms
  by (auto simp: probe_candidate_def bind_err_Inr split: response.splits if_splits)

lemma scan_ports_found:
  "snd (scan_ports parse sid ctx lay ps) = Inr (Some info) \<Longrightarrow>
   \<exists>p \<in> set ps. probe_candidate parse sid ctx (lay p) = Inr (Some info)"
  by (induction ps) (auto split: sum.splits option.splits if_splits)

lemma context_matches_True:
  assumes "context_matches (PDict e) cand = Inr True" and "fmlookup e key = Some v"
  shows "\<exists>c. cand = PDict c \<and> dict_get c key = v"
proof -
  from assms(2) have dom: "key |\<in>| fmdom e" by (simp add: fmdomI)
  then have ne: "fmdom e \<noteq> {||}" by auto
  from assms(1) ne obtain c where c: "cand = PDict c"
    and eq: "\<forall>k \<in> fset (fmdom e). dict_get e k = dict_get c k"
    by (cases cand) (auto simp: context_matches_def)
  from dom eq have "dict_get e key = dict_get c key" by auto
  with assms(2) c show ?thesis by (simp add: dict_get_def)
qed

subsection \<open>The example data\<close>

lemma iso_seconds_noon: "iso_seconds ''2024-05-01T12:00:00'' = Some noon"
  by (simp add: iso_seconds_def digit_value_def days_in_month_def noon_def)

lemma iso_seconds_garbage: "iso_seconds ''not-a-date'' = None"
  by (simp add: iso_seconds_def)

lemma service_info_of_payload:
  "service_info_of iso_seconds (payload sid prt inst p ctx ''2024-05-01T12:00:00'')
     = Inr (record_of sid prt inst p ctx)"
  by (simp add: service_info_of_def payload_def record_of_def py_item_def
      fromisoformat_def iso_seconds_noon)

lemma service_info_of_garbage:
  "service_info_of iso_seconds (payload sid prt inst p ctx ''not-a-date'') = Inl ValueError"
  by (simp add: service_info_of_def payload_def py_item_def
      fromisoformat_def iso_seconds_garbage)

lemma py_get_payload:
  "py_get (payload sid prt inst p ctx st) ''service'' = Inr (PStr sid)"
  "py_get (payload sid prt inst p ctx st) ''status'' = Inr (PStr ''healthy'')"
  "py_get (payload sid prt inst p ctx st) ''instance_id'' = Inr (PStr inst)"
  "py_get (payload sid prt inst p ctx st) ''pid'' = Inr (PNum p)"
  by (simp_all add: py_get_def dict_get_def payload_def)

section \<open>What discovery returns\<close>

text \<open>
  Claim C8, as the code has it. When \<^verbatim>\<open>discover_service\<close> returns a record for an
  expected context that is a dict, the record's \<open>service_id\<close> is the expected service
  id, and for every key of the expected context the record's context is a dict whose
  \<^verbatim>\<open>.get(key)\<close> equals the expected value; a key whose expected value is not \<^verbatim>\<open>None\<close>
  is therefore present with that value. (The claim as written also promises the presence
  of a key whose expected value is \<^verbatim>\<open>None\<close>; see the counterexample below.)
\<close>

theorem discover_service_sound:
  assumes "snd (discover_service parse rng sid (PDict e) lay) = Inr (Some info)"
  shows "service_id info = sid \<and>
         (\<forall>key v. fmlookup e key = Some v \<longrightarrow>
            (\<exists>c. project_context info = PDict c \<and> dict_get c key = v \<and>
                 (v \<noteq> PNone \<longrightarrow> fmlookup c key = Some v)))"
proof -
  from assms obtain p where "probe_candidate parse sid (PDict e) (lay p) = Inr (Some info)"
    unfolding discover_service_def by (blast dest: scan_ports_found)
  then obtain data where get: "py_get data ''service'' = Inr sid"
    and mk: "service_info_of parse data = Inr info"
    and ctx: "context_matches (PDict e) (project_context info) = Inr True"
    by (blast dest: probe_candidate_accept)
  from service_info_of_fields [OF mk] obtain d where "data = PDict d"
    and "fmlookup d ''service'' = Some (service_id info)" by blast
  with get have "service_id info = sid" by (simp add: py_get_def dict_get_def)
  moreover have "\<exists>c. project_context info = PDict c \<and> dict_get c key = v \<and>
                 (v \<noteq> PNone \<longrightarrow> fmlookup c key = Some v)"
    if "fmlookup e key = Some v" for key v
    using context_matches_True [OF ctx that] by (auto simp: dict_get_present)
  ultimately show ?thesis by blast
qed

text \<open>
  Witness for C8: a scan of ports 7770 to 7772 for service \<open>api\<close> with expected context
  \<open>{project: demo}\<close>, where only port 7771 answers, with a context that has the key and
  one more.
\<close>

theorem discover_service_sound_witness:
  "snd (discover_service iso_seconds (7770, 7772) (PStr ''api'')
          (PDict (fmap_of_list [(''project'', PStr ''demo'')]))
          (\<lambda>p. if p = 7771
                then Body (payload ''api'' 7771 ''i-1'' 41
                             [(''project'', PStr ''demo''), (''version'', PStr ''1.0'')]
                             ''2024-05-01T12:00:00'')
                else Raises URLError))
     = Inr (Some (record_of ''api'' 7771 ''i-1'' 41
                    [(''project'', PStr ''demo''), (''version'', PStr ''1.0'')])) \<and>
   service_id (record_of ''api'' 7771 ''i-1'' 41
                 [(''project'', PStr ''demo''), (''version'', PStr ''1.0'')]) = PStr ''api'' \<and>
   (\<exists>c. project_context (record_of ''api'' 7771 ''i-1'' 41
                 [(''project'', PStr ''demo''), (''version'', PStr ''1.0'')]) = PDict c \<and>
        fmlookup c ''project'' = Some (PStr ''demo''))"
proof -
  have run: "snd (discover_service iso_seconds (7770, 7772) (PStr ''api'')
          (PDict (fmap_of_list [(''project'', PStr ''demo'')]))
          (\<lambda>p. if p = 7771
                then Body (payload ''api'' 7771 ''i-1'' 41
                             [(''project'', PStr ''demo''), (''version'', PStr ''1.0'')]
                             ''2024-05-01T12:00:00'')
                else Raises URLError))
     = Inr (Some (record_of ''api'' 7771 ''i-1'' 41
                    [(''project'', PStr ''demo''), (''version'', PStr ''1.0'')]))"
    by (simp add: discover_service_def upto.simps probe_candidate_def py_get_payload
        service_info_of_payload context_matches_def dict_get_def record_of_def caught_def)
  from discover_service_sound [OF run]
  have "service_id (record_of ''api'' 7771 ''i-1'' 41
                 [(''project'', PStr ''demo''), (''version'', PStr ''1.0'')]) = PStr ''api'' \<and>
        (fmlookup (fmap_of_list [(''project'', PStr ''demo'')]) ''project''
            = Some (PStr ''demo'') \<longrightarrow>
         (\<exists>c. project_context (record_of ''api'' 7771 ''i-1'' 41
                 [(''project'', PStr ''demo''), (''version'', PStr ''1.0'')]) = PDict c \<and>
              dict_get c ''project'' = PStr ''demo'' \<and>
              (PStr ''demo'' \<noteq> PNone \<longrightarrow> fmlookup c ''project'' = Some (PStr ''demo''))))"
    by blast
  with run show ?thesis
    by auto
qed

text \<open>
  Counterexample to C8 as written: the expected context \<open>{project: demo, branch: None}\<close>
  has the key \<open>branch\<close>; the service on port 7770 answers with the context
  \<open>{project: demo}\<close>, which has no such key, and is returned: \<^verbatim>\<open>.get\<close> reads the missing
  key as \<^verbatim>\<open>None\<close>, equal to the expected value.
\<close>

theorem discover_missing_key_counterexample:
  "snd (discover_service iso_seconds (7770, 7770) (PStr ''api'')
          (PDict (fmap_of_list [(''project'', PStr ''demo''), (''branch'', PNone)]))
          (\<lambda>p. Body (payload ''api'' 7770 ''i-1'' 41 [(''project'', PStr ''demo'')]
                        ''2024-05-01T12:00:00'')))
     = Inr (Some (record_of ''api'' 7770 ''i-1'' 41 [(''project'', PStr ''demo'')])) \<and>
   project_context (record_of ''api'' 7770 ''i-1'' 41 [(''project'', PStr ''demo'')])
     = PDict (fmap_of_list [(''project'', PStr ''demo'')]) \<and>
   fmlookup (fmap_of_list [(''project'', PStr ''demo'')]) ''branch'' = None \<and>
   fmlookup (fmap_of_list [(''project'', PStr ''demo''), (''branch'', PNone)]) ''branch''
     = Some PNone"
  by (simp add: discover_service_def probe_candidate_def py_get_payload
      service_info_of_payload context_matches_def dict_get_def record_of_def)

section \<open>The scan\<close>

text \<open>The ports are tried in the order of the list; the scan stops at the first port that
  is not passed over, with what the body of the \<^verbatim>\<open>try\<close> gives there, and returns
  \<^verbatim>\<open>None\<close> when every port is passed over.\<close>

lemma scan_ports_all_rejected:
  "\<forall>p \<in> set ps. rejected parse sid ctx (lay p) \<Longrightarrow>
   scan_ports parse sid ctx lay ps = (ps, Inr None)"
  by (induction ps) (auto simp: rejected_def split: sum.splits option.splits)

lemma scan_ports_stops:
  assumes "\<forall>p \<in> set pre. rejected parse sid ctx (lay p)"
    and "\<not> rejected parse sid ctx (lay q)"
  shows "scan_ports parse sid ctx lay (pre @ q # post)
           = (pre @ [q], probe_candidate parse sid ctx (lay q))"
  using assms
  by (induction pre) (auto simp: rejected_def split: sum.splits option.splits)

lemma scan_nobody: "scan_ports parse sid ctx nobody ps = (ps, Inr None)"
  by (induction ps) (simp_all add: nobody_def probe_candidate_def caught_def)

lemma discover_nobody:
  "discover_service parse rng sid ctx nobody = ([fst rng .. snd rng], Inr None)"
  by (simp add: discover_service_def scan_nobody)

text \<open>
  Claim C4, at an input where the code departs from it. Port 7770 answers with the
  expected service id, status \<open>healthy\<close> and a start time that is not a timestamp; port
  7771 answers with a payload that the scan would accept. \<^verbatim>\<open>datetime.fromisoformat\<close>
  raises \<^verbatim>\<open>ValueError\<close>, which \<^verbatim>\<open>except (URLError, JSONDecodeError, KeyError)\<close> does not
  catch: the scan ends at port 7770 with the exception, and the candidate on port 7771
  is never probed.
\<close>

theorem discover_aborts_before_candidate:
  "discover_service iso_seconds (7770, 7771) (PStr ''api'') (PDict fmempty)
     (\<lambda>p. if p = 7770 then Body (payload ''api'' 7770 ''i-0'' 40 [] ''not-a-date'')
          else Body (payload ''api'' 7771 ''i-1'' 41 [] ''2024-05-01T12:00:00''))
     = ([7770], Inl ValueError) \<and>
   probe_candidate iso_seconds (PStr ''api'') (PDict fmempty)
     (Body (payload ''api'' 7771 ''i-1'' 41 [] ''2024-05-01T12:00:00''))
     = Inr (Some (record_of ''api'' 7771 ''i-1'' 41 []))"
  by (simp add: discover_service_def upto.simps probe_candidate_def py_get_payload
      service_info_of_garbage service_info_of_payload caught_def context_matches_def)

section \<open>Exceptions that leave the scan and the monitor\<close>

text \<open>
  Claim C3, at an input where the code departs from it. A health payload with the
  expected service id, status \<open>healthy\<close>, all fields, and the start time \<open>not-a-date\<close>:
  \<^verbatim>\<open>discover_service\<close> raises \<^verbatim>\<open>ValueError\<close> to its caller. The same payload from another
  instance as the answer to a health request of the monitor: the loop is left by
  \<^verbatim>\<open>ValueError\<close>, with no event.
\<close>

theorem malformed_start_time_raises:
  "discover_service iso_seconds (7770, 7770) (PStr ''api'') (PDict fmempty)
     (\<lambda>p. Body (payload ''api'' 7770 ''i-1'' 41 [] ''not-a-date''))
     = ([7770], Inl ValueError) \<and>
   monitor_loop iso_seconds (record_of ''api'' 7770 ''i-1'' 41 [])
     [\<lparr>running = True, health = Body (payload ''api'' 7770 ''i-2'' 42 [] ''not-a-date''),
       world = nobody, on_change = returns\<rparr>]
     = ([HealthProbe], Raised ValueError)"
  by (simp add: discover_service_def probe_candidate_def py_get_payload
      service_info_of_garbage caught_def monitor_cycle_def check_health_def record_of_def)

text \<open>A JSON body that is not an object has no \<^verbatim>\<open>get\<close>: the \<^verbatim>\<open>AttributeError\<close> is not
  caught either.\<close>

lemma non_object_body_raises:
  "discover_service parse (7770, 7770) sid ctx (\<lambda>p. Body (PList []))
     = ([7770], Inl AttributeError)"
  "monitor_loop parse tracked
     [\<lparr>running = True, health = Body (PList []), world = lay, on_change = cb\<rparr>]
     = ([HealthProbe], Raised AttributeError)"
  by (simp_all add: discover_service_def probe_candidate_def py_get_def caught_def
      monitor_cycle_def check_health_def)

section \<open>The monitor\<close>

lemma fired_append: "fired (xs @ ys) = fired xs @ fired ys"
  by (induction xs rule: fired.induct) simp_all

lemma fired_ScanProbe: "fired (map ScanProbe ps) = []"
  by (induction ps) simp_all

lemma check_health_event:
  "check_health parse tracked r = Inr (Some ev) \<Longrightarrow>
   \<exists>observed. ev = \<lparr>event_type = ''restart'', old_service = tracked,
                      new_service = Some observed\<rparr>"
  by (auto simp: check_health_def bind_err_Inr split: response.splits if_splits)

text \<open>\<^verbatim>\<open>_handle_service_down\<close> calls the callback at most once, with a recovery or a
  disconnection.\<close>

lemma handle_service_down_events:
  "fired (fst (handle_service_down parse tracked lay cb)) = [] \<or>
   (\<exists>found. fired (fst (handle_service_down parse tracked lay cb))
      = [\<lparr>event_type = ''recovery'', old_service = tracked, new_service = Some found\<rparr>]) \<or>
   fired (fst (handle_service_down parse tracked lay cb))
      = [\<lparr>event_type = ''disconnected'', old_service = tracked, new_service = None\<rparr>]"
  by (auto simp: handle_service_down_def fired_append fired_ScanProbe
      split: pyval.splits prod.splits sum.splits option.splits)

lemma service_down_events:
  "fired (fst (service_down parse tracked c before)) =
     fired before @ fired (fst (handle_service_down parse tracked (world c) (on_change c)))"
  by (cases "handle_service_down parse tracked (world c) (on_change c)")
     (auto simp: service_down_def fired_append split: option.splits)

text \<open>The events of one cycle: a restart, a recovery or a disconnection alone, or a
  restart whose callback failed followed by a recovery or a disconnection.\<close>

lemma monitor_cycle_shapes:
  "\<forall>ev \<in> set (fired (fst (monitor_cycle parse tracked c))).
     old_service ev = tracked \<and>
     (event_type ev = ''restart'' \<and> new_service ev \<noteq> None \<or>
      event_type ev = ''recovery'' \<and> new_service ev \<noteq> None \<or>
      event_type ev = ''disconnected'' \<and> new_service ev = None)"
proof (cases "check_health parse tracked (health c)")
  case (Inl e)
  with handle_service_down_events [of parse tracked "world c" "on_change c"]
  show ?thesis
    by (auto simp: monitor_cycle_def service_down_events)
next
  case (Inr r)
  show ?thesis
  proof (cases r)
    case None
    with Inr show ?thesis by (simp add: monitor_cycle_def)
  next
    case (Some ev)
    with Inr check_health_event [of parse tracked "health c" ev]
    obtain observed where ev: "ev = \<lparr>event_type = ''restart'', old_service = tracked,
                      new_service = Some observed\<rparr>" by auto
    from Inr Some ev handle_service_down_events [of parse tracked "world c" "on_change c"]
    show ?thesis
      by (cases "on_change c ev") (auto simp: monitor_cycle_def service_down_events)
  qed
qed

text \<open>With a callback that returns, one cycle calls it at most once.\<close>

lemma monitor_cycle_one_event:
  assumes "\<forall>ev. on_change c ev = None"
  shows "length (fired (fst (monitor_cycle parse tracked c))) \<le> 1"
proof (cases "check_health parse tracked (health c)")
  case (Inl e)
  with handle_service_down_events [of parse tracked "world c" "on_change c"]
  show ?thesis
    by (auto simp: monitor_cycle_def service_down_events)
next
  case (Inr r)
  with assms show ?thesis
    by (cases r) (auto simp: monitor_cycle_def)
qed

subsection \<open>The example cycles\<close>

lemma running_examples:
  "running same_instance_cycle" "running restarted_cycle" "running moved_cycle"
  "running gone_cycle" "running short_payload_cycle" "running failing_callback_cycle"
  by (simp_all add: same_instance_cycle_def restarted_cycle_def moved_cycle_def
      gone_cycle_def short_payload_cycle_def failing_callback_cycle_def)

lemma monitor_cycle_restarted:
  "monitor_cycle iso_seconds tracked_api restarted_cycle =
     ([HealthProbe,
       Fire \<lparr>event_type = ''restart'', old_service = tracked_api,
             new_service = Some (record_of ''api'' 7770 ''i-2'' 42 [])\<rparr>], Return)"
  by (simp add: monitor_cycle_def restarted_cycle_def check_health_def py_get_payload
      service_info_of_payload tracked_api_def record_of_def returns_def)

lemma handle_service_down_nobody:
  "handle_service_down parse tracked_api nobody returns =
     (map ScanProbe [7760..7780] @
      [Fire \<lparr>event_type = ''disconnected'', old_service = tracked_api, new_service = None\<rparr>],
      None)"
  by (simp add: handle_service_down_def tracked_api_def record_of_def discover_nobody
      returns_def)

lemma monitor_cycle_gone:
  "monitor_cycle parse tracked_api gone_cycle =
     (HealthProbe # map ScanProbe [7760..7780] @
      [Fire \<lparr>event_type = ''disconnected'', old_service = tracked_api, new_service = None\<rparr>,
       Sleep], Continue)"
  by (simp add: monitor_cycle_def service_down_def gone_cycle_def check_health_def
      caught_def handle_service_down_nobody)

lemma upto_split: "[7760..7780] = [7760..7774] @ 7775 # [7776..7780]"
  by (simp add: upto.simps)

lemma monitor_cycle_moved:
  "monitor_cycle iso_seconds tracked_api moved_cycle =
     (HealthProbe # map ScanProbe [7760..7775] @
      [Fire \<lparr>event_type = ''recovery'', old_service = tracked_api,
             new_service = Some (record_of ''api'' 7775 ''i-2'' 42 [])\<rparr>,
       Sleep], Continue)"
proof -
  have "scan_ports iso_seconds (PStr ''api'') (PDict fmempty)
          (\<lambda>p. if p = 7775
                then Body (payload ''api'' 7775 ''i-2'' 42 [] ''2024-05-01T12:00:00'')
                else Raises URLError) ([7760..7774] @ 7775 # [7776..7780])
        = ([7760..7774] @ [7775],
           probe_candidate iso_seconds (PStr ''api'') (PDict fmempty)
             (Body (payload ''api'' 7775 ''i-2'' 42 [] ''2024-05-01T12:00:00'')))"
    by (subst scan_ports_stops)
       (auto simp: rejected_def probe_candidate_def caught_def py_get_payload
          service_info_of_payload context_matches_def)
  then have "discover_service iso_seconds (7760, 7780) (PStr ''api'') (PDict fmempty)
          (\<lambda>p. if p = 7775
                then Body (payload ''api'' 7775 ''i-2'' 42 [] ''2024-05-01T12:00:00'')
                else Raises URLError)
        = ([7760..7775], Inr (Some (record_of ''api'' 7775 ''i-2'' 42 [])))"
    by (simp add: discover_service_def upto_split probe_candidate_def py_get_payload
        service_info_of_payload context_matches_def)
  then show ?thesis
    by (simp add: monitor_cycle_def service_down_def moved_cycle_def check_health_def
        caught_def handle_service_down_def tracked_api_def record_of_def returns_def)
qed

text \<open>The short payload has no \<open>port\<close>: building the record raises \<^verbatim>\<open>KeyError\<close>, and
  the cycle is that of a dead port.\<close>

lemma monitor_cycle_short_payload:
  "monitor_cycle parse tracked_api short_payload_cycle =
     (HealthProbe # map ScanProbe [7760..7780] @
      [Fire \<lparr>event_type = ''disconnected'', old_service = tracked_api, new_service = None\<rparr>,
       Sleep], Continue)"
proof -
  have "check_health parse tracked_api (Body short_payload) = Inl KeyError"
    by (simp add: check_health_def short_payload_def py_get_def dict_get_def
        tracked_api_def record_of_def service_info_of_def py_item_def)
  then show ?thesis
    by (simp add: monitor_cycle_def service_down_def short_payload_cycle_def caught_def
        handle_service_down_nobody)
qed

text \<open>A callback that raises \<^verbatim>\<open>KeyError\<close> on the restart event is inside the \<^verbatim>\<open>try\<close>: the
  \<^verbatim>\<open>except\<close> branch runs, a second event is fired in the same cycle, and the second
  failure of the callback leaves the loop.\<close>

lemma monitor_loop_failing_callback:
  "monitor_loop iso_seconds tracked_api [failing_callback_cycle] =
     ([HealthProbe,
       Fire \<lparr>event_type = ''restart'', old_service = tracked_api,
             new_service = Some (record_of ''api'' 7770 ''i-2'' 42 [])\<rparr>] @
      map ScanProbe [7760..7780] @
      [Fire \<lparr>event_type = ''disconnected'', old_service = tracked_api, new_service = None\<rparr>],
      Raised KeyError)"
proof -
  have "handle_service_down iso_seconds tracked_api nobody fails_on_key =
     (map ScanProbe [7760..7780] @
      [Fire \<lparr>event_type = ''disconnected'', old_service = tracked_api, new_service = None\<rparr>],
      Some KeyError)"
    by (simp add: handle_service_down_def tracked_api_def record_of_def discover_nobody
        fails_on_key_def)
  moreover have "check_health iso_seconds tracked_api
      (Body (payload ''api'' 7770 ''i-2'' 42 [] ''2024-05-01T12:00:00''))
      = Inr (Some \<lparr>event_type = ''restart'', old_service = tracked_api,
                    new_service = Some (record_of ''api'' 7770 ''i-2'' 42 [])\<rparr>)"
    by (simp add: check_health_def py_get_payload service_info_of_payload tracked_api_def
        record_of_def)
  ultimately show ?thesis
    by (simp add: monitor_cycle_def service_down_def failing_callback_cycle_def caught_def
        fails_on_key_def)
qed

subsection \<open>A successful health response\<close>

text \<open>
  Claim C7, as the code has it. A polling cycle whose health request is answered with a
  JSON object. If the returned \<open>instance_id\<close> and \<open>pid\<close> both equal the tracked
  record's, no event is fired and the loop sleeps and goes on to the next cycle. If
  either differs and the object has all eight fields of the health payload, with a start
  time that parses, the callback is called once, with an event of type \<open>restart\<close> that
  carries the tracked record and the record made of the object's fields, and when the
  callback returns the loop returns: nothing of the later cycles happens. If either
  differs and one of the fields read before the start time is parsed is missing, the
  cycle, and the loop from there, is that of a health request that failed. (The claim as
  written promises the restart event for every answered request; see the counterexample
  below.)
\<close>

theorem monitor_success_cycle:
  assumes "running c" and "health c = Body (PDict d)"
  shows "(dict_get d ''instance_id'' = instance_id tracked \<and>
          dict_get d ''pid'' = pid tracked \<longrightarrow>
            monitor_loop parse tracked (c # cs) =
              (HealthProbe # Sleep # fst (monitor_loop parse tracked cs),
               snd (monitor_loop parse tracked cs))) \<and>
         ((dict_get d ''instance_id'' \<noteq> instance_id tracked \<or>
           dict_get d ''pid'' \<noteq> pid tracked) \<and>
          fmlookup d ''service'' = Some v_service \<and>
          fmlookup d ''port'' = Some v_port \<and>
          fmlookup d ''instance_id'' = Some v_instance \<and>
          fmlookup d ''pid'' = Some v_pid \<and>
          fmlookup d ''project_context'' = Some v_context \<and>
          fmlookup d ''verification_token'' = Some v_token \<and>
          fmlookup d ''start_time'' = Some (PStr started) \<and> parse started = Some t \<and>
          fmlookup d ''status'' = Some v_status \<and>
          on_change c
            \<lparr>event_type = ''restart'', old_service = tracked,
             new_service = Some
               \<lparr>service_id = v_service, port = v_port, instance_id = v_instance,
                pid = v_pid, project_context = v_context, verification_token = v_token,
                start_time = t, status = v_status\<rparr>\<rparr> = None \<longrightarrow>
            monitor_loop parse tracked (c # cs) =
              ([HealthProbe,
                Fire \<lparr>event_type = ''restart'', old_service = tracked,
                      new_service = Some
                        \<lparr>service_id = v_service, port = v_port, instance_id = v_instance,
                         pid = v_pid, project_context = v_context,
                         verification_token = v_token, start_time = t,
                         status = v_status\<rparr>\<rparr>], Returned)) \<and>
         ((dict_get d ''instance_id'' \<noteq> instance_id tracked \<or>
           dict_get d ''pid'' \<noteq> pid tracked) \<and>
          (fmlookup d ''service'' = None \<or> fmlookup d ''port'' = None \<or>
           fmlookup d ''instance_id'' = None \<or> fmlookup d ''pid'' = None \<or>
           fmlookup d ''project_context'' = None \<or>
           fmlookup d ''verification_token'' = None \<or>
           fmlookup d ''start_time'' = None) \<longrightarrow>
            monitor_loop parse tracked (c # cs) =
              monitor_loop parse tracked (c\<lparr>health := Raises URLError\<rparr> # cs))"
proof -
  have quiet: "check_health parse tracked (health c) = Inr None"
    if "dict_get d ''instance_id'' = instance_id tracked" "dict_get d ''pid'' = pid tracked"
    using that assms(2) by (simp add: check_health_def py_get_def)
  have restart: "check_health parse tracked (health c) =
      Inr (Some \<lparr>event_type = ''restart'', old_service = tracked,
                  new_service = Some
                    \<lparr>service_id = v_service, port = v_port, instance_id = v_instance,
                     pid = v_pid, project_context = v_context,
                     verification_token = v_token, start_time = t,
                     status = v_status\<rparr>\<rparr>)"
    if "dict_get d ''instance_id'' \<noteq> instance_id tracked \<or>
        dict_get d ''pid'' \<noteq> pid tracked"
      "fmlookup d ''service'' = Some v_service" "fmlookup d ''port'' = Some v_port"
      "fmlookup d ''instance_id'' = Some v_instance" "fmlookup d ''pid'' = Some v_pid"
      "fmlookup d ''project_context'' = Some v_context"
      "fmlookup d ''verification_token'' = Some v_token"
      "fmlookup d ''start_time'' = Some (PStr started)" "parse started = Some t"
      "fmlookup d ''status'' = Some v_status"
  proof -
    have "service_info_of parse (PDict d) =
        Inr \<lparr>service_id = v_service, port = v_port, instance_id = v_instance,
             pid = v_pid, project_context = v_context, verification_token = v_token,
             start_time = t, status = v_status\<rparr>"
      using that(2-) by (simp add: service_info_of_def py_item_def fromisoformat_def)
    with that(1) assms(2) show ?thesis
      by (auto simp: check_health_def py_get_def)
  qed
  have missing: "check_health parse tracked (health c) = Inl KeyError"
    if "dict_get d ''instance_id'' \<noteq> instance_id tracked \<or>
        dict_get d ''pid'' \<noteq> pid tracked"
      "fmlookup d ''service'' = None \<or> fmlookup d ''port'' = None \<or>
       fmlookup d ''instance_id'' = None \<or> fmlookup d ''pid'' = None \<or>
       fmlookup d ''project_context'' = None \<or>
       fmlookup d ''verification_token'' = None \<or>
       fmlookup d ''start_time'' = None"
  proof -
    have "service_info_of parse (PDict d) = Inl KeyError"
      using that(2)
      by (auto simp: service_info_of_def py_item_def bind_err_def split: option.splits)
    with that(1) assms(2) show ?thesis
      by (auto simp: check_health_def py_get_def)
  qed
  have failed: "monitor_cycle parse tracked (c\<lparr>health := Raises URLError\<rparr>)
                  = service_down parse tracked c [HealthProbe]"
    by (simp add: monitor_cycle_def check_health_def caught_def service_down_def)
  have a: "dict_get d ''instance_id'' = instance_id tracked \<and>
          dict_get d ''pid'' = pid tracked \<longrightarrow>
            monitor_loop parse tracked (c # cs) =
              (HealthProbe # Sleep # fst (monitor_loop parse tracked cs),
               snd (monitor_loop parse tracked cs))"
    using quiet assms(1) by (simp add: monitor_cycle_def)
  have b: "(dict_get d ''instance_id'' \<noteq> instance_id tracked \<or>
           dict_get d ''pid'' \<noteq> pid tracked) \<and>
          fmlookup d ''service'' = Some v_service \<and>
          fmlookup d ''port'' = Some v_port \<and>
          fmlookup d ''instance_id'' = Some v_instance \<and>
          fmlookup d ''pid'' = Some v_pid \<and>
          fmlookup d ''project_context'' = Some v_context \<and>
          fmlookup d ''verification_token'' = Some v_token \<and>
          fmlookup d ''start_time'' = Some (PStr started) \<and> parse started = Some t \<and>
          fmlookup d ''status'' = Some v_status \<and>
          on_change c
            \<lparr>event_type = ''restart'', old_service = tracked,
             new_service = Some
               \<lparr>service_id = v_service, port = v_port, instance_id = v_instance,
                pid = v_pid, project_context = v_context, verification_token = v_token,
                start_time = t, status = v_status\<rparr>\<rparr> = None \<longrightarrow>
            monitor_loop parse tracked (c # cs) =
              ([HealthProbe,
                Fire \<lparr>event_type = ''restart'', old_service = tracked,
                      new_service = Some
                        \<lparr>service_id = v_service, port = v_port, instance_id = v_instance,
                         pid = v_pid, project_context = v_context,
                         verification_token = v_token, start_time = t,
                         status = v_status\<rparr>\<rparr>], Returned)"
    using restart assms(1) by (simp add: monitor_cycle_def)
  have c: "(dict_get d ''instance_id'' \<noteq> instance_id tracked \<or>
           dict_get d ''pid'' \<noteq> pid tracked) \<and>
          (fmlookup d ''service'' = None \<or> fmlookup d ''port'' = None \<or>
           fmlookup d ''instance_id'' = None \<or> fmlookup d ''pid'' = None \<or>
           fmlookup d ''project_context'' = None \<or>
           fmlookup d ''verification_token'' = None \<or>
           fmlookup d ''start_time'' = None) \<longrightarrow>
            monitor_loop parse tracked (c # cs) =
              monitor_loop parse tracked (c\<lparr>health := Raises URLError\<rparr> # cs)"
  proof
    assume h: "(dict_get d ''instance_id'' \<noteq> instance_id tracked \<or>
           dict_get d ''pid'' \<noteq> pid tracked) \<and>
          (fmlookup d ''service'' = None \<or> fmlookup d ''port'' = None \<or>
           fmlookup d ''instance_id'' = None \<or> fmlookup d ''pid'' = None \<or>
           fmlookup d ''project_context'' = None \<or>
           fmlookup d ''verification_token'' = None \<or>
           fmlookup d ''start_time'' = None)"
    then have "check_health parse tracked (health c) = Inl KeyError"
      using missing by blast
    then have "monitor_cycle parse tracked c = service_down parse tracked c [HealthProbe]"
      by (simp add: monitor_cycle_def caught_def)
    with failed assms(1) show "monitor_loop parse tracked (c # cs) =
              monitor_loop parse tracked (c\<lparr>health := Raises URLError\<rparr> # cs)"
      by simp
  qed
  from a b c show ?thesis by blast
qed

text \<open>
  Witness for C7. The same instance answers in the first cycle (no event, the loop goes
  on), another instance answers in the second (one \<open>restart\<close> event, the loop returns),
  and the third cycle is never run. And a cycle answered with the short payload is the
  cycle of a dead port.
\<close>

theorem monitor_success_cycle_witness:
  "monitor_loop iso_seconds tracked_api [same_instance_cycle, restarted_cycle, gone_cycle] =
     ([HealthProbe, Sleep, HealthProbe,
       Fire \<lparr>event_type = ''restart'', old_service = tracked_api,
             new_service = Some (record_of ''api'' 7770 ''i-2'' 42 [])\<rparr>], Returned) \<and>
   monitor_loop iso_seconds tracked_api [short_payload_cycle] =
   monitor_loop iso_seconds tracked_api [short_payload_cycle\<lparr>health := Raises URLError\<rparr>]"
proof -
  have h1: "health same_instance_cycle
              = Body (PDict (fmap_of_list
       [(''service'', PStr ''api''), (''status'', PStr ''healthy''), (''port'', PNum 7770),
        (''instance_id'', PStr ''i-1''), (''pid'', PNum 41),
        (''verification_token'', PStr ''tok''),
        (''project_context'', PDict (fmap_of_list [])),
        (''start_time'', PStr ''2024-05-01T12:00:00'')]))"
    by (simp add: same_instance_cycle_def payload_def)
  have h2: "health restarted_cycle
              = Body (PDict (fmap_of_list
       [(''service'', PStr ''api''), (''status'', PStr ''healthy''), (''port'', PNum 7770),
        (''instance_id'', PStr ''i-2''), (''pid'', PNum 42),
        (''verification_token'', PStr ''tok''),
        (''project_context'', PDict (fmap_of_list [])),
        (''start_time'', PStr ''2024-05-01T12:00:00'')]))"
    by (simp add: restarted_cycle_def payload_def)
  have h3: "health short_payload_cycle
              = Body (PDict (fmap_of_list
       [(''service'', PStr ''api''), (''status'', PStr ''healthy''),
        (''instance_id'', PStr ''i-2''), (''pid'', PNum 42)]))"
    by (simp add: short_payload_cycle_def short_payload_def)
  have cb: "on_change restarted_cycle = returns"
    by (simp add: restarted_cycle_def)
  from monitor_success_cycle [OF running_examples(1) h1,
      where tracked = tracked_api and parse = iso_seconds
        and cs = "[restarted_cycle, gone_cycle]"]
  have 1: "monitor_loop iso_seconds tracked_api
             [same_instance_cycle, restarted_cycle, gone_cycle] =
           (HealthProbe # Sleep #
              fst (monitor_loop iso_seconds tracked_api [restarted_cycle, gone_cycle]),
            snd (monitor_loop iso_seconds tracked_api [restarted_cycle, gone_cycle]))"
    by (simp add: dict_get_def tracked_api_def record_of_def)
  from monitor_success_cycle [OF running_examples(2) h2,
      where tracked = tracked_api and parse = iso_seconds and cs = "[gone_cycle]"
        and v_service = "PStr ''api''" and v_port = "PNum 7770"
        and v_instance = "PStr ''i-2''" and v_pid = "PNum 42"
        and v_context = "PDict (fmap_of_list [])" and v_token = "PStr ''tok''"
        and started = "''2024-05-01T12:00:00''" and t = noon
        and v_status = "PStr ''healthy''"]
  have 2: "monitor_loop iso_seconds tracked_api [restarted_cycle, gone_cycle] =
           ([HealthProbe,
             Fire \<lparr>event_type = ''restart'', old_service = tracked_api,
                   new_service = Some (record_of ''api'' 7770 ''i-2'' 42 [])\<rparr>], Returned)"
    by (simp add: dict_get_def tracked_api_def record_of_def iso_seconds_noon cb
        returns_def)
  from monitor_success_cycle [OF running_examples(5) h3,
      where tracked = tracked_api and parse = iso_seconds and cs = "[]"]
  have 3: "monitor_loop iso_seconds tracked_api [short_payload_cycle] =
     monitor_loop iso_seconds tracked_api [short_payload_cycle\<lparr>health := Raises URLError\<rparr>]"
    by (simp add: dict_get_def tracked_api_def record_of_def)
  from 1 2 3 show ?thesis by simp
qed

text \<open>
  Counterexample to C7 as written: the health request is answered, by another instance
  (\<open>instance_id\<close> and \<open>pid\<close> differ from the tracked ones), with a JSON object that
  has no \<open>port\<close> field. No restart event is fired: the missing field raises
  \<^verbatim>\<open>KeyError\<close>, the ports 7760 to 7780 are scanned, a \<open>disconnected\<close> event is fired,
  and the monitor sleeps and is still polling.
\<close>

theorem short_payload_counterexample:
  "dict_get (fmap_of_list
       [(''service'', PStr ''api''), (''status'', PStr ''healthy''),
        (''instance_id'', PStr ''i-2''), (''pid'', PNum 42)]) ''instance_id''
     \<noteq> instance_id tracked_api \<and>
   health short_payload_cycle = Body (PDict (fmap_of_list
       [(''service'', PStr ''api''), (''status'', PStr ''healthy''),
        (''instance_id'', PStr ''i-2''), (''pid'', PNum 42)])) \<and>
   monitor_loop iso_seconds tracked_api [short_payload_cycle] =
     (HealthProbe # map ScanProbe [7760..7780] @
      [Fire \<lparr>event_type = ''disconnected'', old_service = tracked_api, new_service = None\<rparr>,
       Sleep], Polling)"
proof -
  have "dict_get (fmap_of_list
       [(''service'', PStr ''api''), (''status'', PStr ''healthy''),
        (''instance_id'', PStr ''i-2''), (''pid'', PNum 42)]) ''instance_id''
     \<noteq> instance_id tracked_api"
    by (simp add: dict_get_def tracked_api_def record_of_def)
  moreover have "health short_payload_cycle = Body (PDict (fmap_of_list
       [(''service'', PStr ''api''), (''status'', PStr ''healthy''),
        (''instance_id'', PStr ''i-2''), (''pid'', PNum 42)]))"
    by (simp add: short_payload_cycle_def short_payload_def)
  moreover have "monitor_loop iso_seconds tracked_api [short_payload_cycle] =
     (HealthProbe # map ScanProbe [7760..7780] @
      [Fire \<lparr>event_type = ''disconnected'', old_service = tracked_api, new_service = None\<rparr>,
       Sleep], Polling)"
    by (simp add: monitor_cycle_short_payload running_examples)
  ultimately show ?thesis by blast
qed

subsection \<open>The events\<close>

text \<open>
  Claim C2, as the code has it. Every event that the monitor delivers to the callback
  has the tracked record as \<open>old_service\<close> and is of one of three kinds: \<open>event_type\<close>
  is the string \<open>restart\<close> with a record as \<open>new_service\<close>, or the string \<open>recovery\<close>
  with a record as \<open>new_service\<close>, or the string \<open>disconnected\<close> with \<open>new_service\<close>
  \<^verbatim>\<open>None\<close>. (The claim as written names the strings \<open>restarted\<close> and \<open>recovered\<close>.)
\<close>

theorem monitor_events_shape:
  "\<forall>ev \<in> set (fired (fst (monitor_loop parse tracked cs))).
     old_service ev = tracked \<and>
     (event_type ev = ''restart'' \<and> new_service ev \<noteq> None \<or>
      event_type ev = ''recovery'' \<and> new_service ev \<noteq> None \<or>
      event_type ev = ''disconnected'' \<and> new_service ev = None)"
proof (induction cs)
  case Nil
  show ?case by simp
next
  case (Cons c cs)
  obtain acts ctl where mc: "monitor_cycle parse tracked c = (acts, ctl)"
    by (cases "monitor_cycle parse tracked c")
  from monitor_cycle_shapes [of parse tracked c] mc
  have here: "\<forall>ev \<in> set (fired acts).
     old_service ev = tracked \<and>
     (event_type ev = ''restart'' \<and> new_service ev \<noteq> None \<or>
      event_type ev = ''recovery'' \<and> new_service ev \<noteq> None \<or>
      event_type ev = ''disconnected'' \<and> new_service ev = None)"
    by simp
  show ?case
  proof (cases "running c")
    case False
    then show ?thesis by simp
  next
    case True
    with mc here Cons.IH show ?thesis
      by (cases ctl) (auto simp: fired_append)
  qed
qed

text \<open>
  Witness for C2: a run that delivers one event of each kind, a recovery (the service
  found on port 7775), a disconnection and a restart.
\<close>

theorem monitor_events_shape_witness:
  "map event_type
     (fired (fst (monitor_loop iso_seconds tracked_api
                    [moved_cycle, gone_cycle, restarted_cycle])))
     = [''recovery'', ''disconnected'', ''restart''] \<and>
   map old_service
     (fired (fst (monitor_loop iso_seconds tracked_api
                    [moved_cycle, gone_cycle, restarted_cycle])))
     = [tracked_api, tracked_api, tracked_api] \<and>
   map new_service
     (fired (fst (monitor_loop iso_seconds tracked_api
                    [moved_cycle, gone_cycle, restarted_cycle])))
     = [Some (record_of ''api'' 7775 ''i-2'' 42 []), None,
        Some (record_of ''api'' 7770 ''i-2'' 42 [])]"
  using monitor_events_shape [of iso_seconds tracked_api
      "[moved_cycle, gone_cycle, restarted_cycle]"]
  by (simp add: monitor_cycle_moved monitor_cycle_gone monitor_cycle_restarted
      running_examples fired_append fired_ScanProbe)

text \<open>
  Counterexample to C2 as written: a recovery followed by a restart delivers the event
  types \<open>recovery\<close> and \<open>restart\<close>, neither of which is one of the three strings of the
  claim.
\<close>

theorem monitor_event_names_counterexample:
  "map event_type
     (fired (fst (monitor_loop iso_seconds tracked_api [moved_cycle, restarted_cycle])))
     = [''recovery'', ''restart''] \<and>
   ''recovery'' \<notin> {''restarted'', ''recovered'', ''disconnected''} \<and>
   ''restart'' \<notin> {''restarted'', ''recovered'', ''disconnected''}"
  by (simp add: monitor_cycle_moved monitor_cycle_restarted
      running_examples fired_append fired_ScanProbe)

subsection \<open>After an event\<close>

text \<open>
  Claim C1, at an input where the code departs from it. The tracked port is dead in two
  consecutive cycles; in the first the scan finds the service on port 7775, in the
  second it finds nothing. The monitor fires \<open>recovery\<close>, sleeps, and then issues a
  second health request, scans again and fires \<open>disconnected\<close>: only the restart
  branch of \<^verbatim>\<open>_monitor_loop\<close> returns, the \<^verbatim>\<open>except\<close> branch falls through to the sleep
  and the next cycle. After the second event the loop is still polling.
\<close>

theorem monitor_keeps_polling_after_down_events:
  "monitor_loop iso_seconds tracked_api [moved_cycle, gone_cycle] =
     (HealthProbe # map ScanProbe [7760..7775] @
      [Fire \<lparr>event_type = ''recovery'', old_service = tracked_api,
             new_service = Some (record_of ''api'' 7775 ''i-2'' 42 [])\<rparr>,
       Sleep, HealthProbe] @ map ScanProbe [7760..7780] @
      [Fire \<lparr>event_type = ''disconnected'', old_service = tracked_api, new_service = None\<rparr>,
       Sleep], Polling)"
  by (simp add: monitor_cycle_moved monitor_cycle_gone running_examples)

section \<open>The registry\<close>

lemma first_available_stops:
  assumes "\<forall>p \<in> set pre. is_port_available h p = Inr False"
    and "is_port_available h q = Inr True"
  shows "first_available h (pre @ q # post) = (pre @ [q], Inr q)"
  using assms by (induction pre) auto

lemma first_available_none:
  "\<forall>p \<in> set ps. is_port_available h p = Inr False \<Longrightarrow>
   first_available h ps = (ps, Inl NoAvailablePortError)"
  by (induction ps) auto

lemma first_available_cases:
  assumes "\<forall>p \<in> set ps. 0 \<le> p \<and> p \<le> 65535"
  shows "(\<exists>pre q post. ps = pre @ q # post \<and> (\<forall>p \<in> set pre. \<not> bindable h p) \<and>
            bindable h q \<and> first_available h ps = (pre @ [q], Inr q)) \<or>
         ((\<forall>p \<in> set ps. \<not> bindable h p) \<and>
            first_available h ps = (ps, Inl NoAvailablePortError))"
proof -
  have probe: "is_port_available h p = Inr (bindable h p)" if "p \<in> set ps" for p
    using that assms by (auto simp: is_port_available_def)
  show ?thesis
  proof (cases "\<exists>p \<in> set ps. bindable h p")
    case True
    from split_list_first_prop [OF True] obtain pre q post
      where ps: "ps = pre @ q # post" and q: "bindable h q"
        and pre: "\<forall>p \<in> set pre. \<not> bindable h p" by blast
    from ps pre probe have "\<forall>p \<in> set pre. is_port_available h p = Inr False" by simp
    moreover from ps q probe have "is_port_available h q = Inr True" by simp
    ultimately have "first_available h (pre @ q # post) = (pre @ [q], Inr q)"
      by (rule first_available_stops)
    with ps q pre show ?thesis by blast
  next
    case False
    with probe have "\<forall>p \<in> set ps. is_port_available h p = Inr False" by simp
    from first_available_none [OF this] False show ?thesis by simp
  qed
qed

lemma upto_decomp:
  assumes "[lo..hi] = pre @ q # post"
  shows "lo \<le> q \<and> q \<le> hi \<and> pre = [lo..q - 1]"
proof -
  have "q \<in> set [lo..hi]" by (simp add: assms)
  then have bounds: "lo \<le> q" "q \<le> hi" by simp_all
  have "distinct (pre @ q # post)" using distinct_upto [of lo hi] by (simp add: assms)
  then have "q \<notin> set pre" "q \<notin> set post" by auto
  moreover have "pre @ q # post = [lo..q - 1] @ q # [q + 1..hi]"
    using upto_split3 [OF bounds] assms by simp
  ultimately have "pre = [lo..q - 1]"
    by (simp add: append_Cons_eq_iff)
  with bounds show ?thesis by simp
qed

text \<open>For a range of port numbers, the scan either returns its lowest bindable port,
  having tried exactly the ports up to it in ascending order, or raises
  \<^verbatim>\<open>NoAvailablePortError\<close> after trying every port, none of which is bindable.\<close>

lemma find_available_port_cases:
  assumes "port_range reg = (lo, hi)" and "0 \<le> lo" and "hi \<le> 65535"
  shows "(\<exists>q \<in> {lo..hi}. bindable h q \<and> (\<forall>r \<in> {lo..<q}. \<not> bindable h r) \<and>
            find_available_port h reg = ([lo..q], Inr q)) \<or>
         ((\<forall>r \<in> {lo..hi}. \<not> bindable h r) \<and>
            find_available_port h reg = ([lo..hi], Inl NoAvailablePortError))"
proof -
  from assms(2,3) have "\<forall>p \<in> set [lo..hi]. 0 \<le> p \<and> p \<le> 65535" by auto
  from first_available_cases [OF this, of h]
  consider pre q post where "[lo..hi] = pre @ q # post" "\<forall>p \<in> set pre. \<not> bindable h p"
      "bindable h q" "first_available h [lo..hi] = (pre @ [q], Inr q)"
    | "\<forall>p \<in> set [lo..hi]. \<not> bindable h p"
      "first_available h [lo..hi] = ([lo..hi], Inl NoAvailablePortError)"
    by blast
  then show ?thesis
  proof cases
    case 1
    from upto_decomp [OF 1(1)] have q: "lo \<le> q" "q \<le> hi" and pre: "pre = [lo..q - 1]"
      by simp_all
    from q(1) pre have "pre @ [q] = [lo..q]" using upto_rec2 [of lo q] by simp
    moreover from 1(2) pre have "\<forall>r \<in> {lo..<q}. \<not> bindable h r" by auto
    ultimately show ?thesis using 1 q assms(1)
      by (auto simp: find_available_port_def)
  next
    case 2
    with assms(1) show ?thesis by (simp add: find_available_port_def)
  qed
qed

text \<open>On port numbers, allocation is as documented for every preferred port but 0: a
  bindable preferred port is chosen at once, otherwise the range is scanned after the
  one attempt on the preferred port; and \<^verbatim>\<open>start\<close> tries the same ports, raises what
  the choice raises, and returns a record with the chosen port.\<close>

lemma port_allocation_on_port_numbers:
  assumes "port_range reg = (lo, hi)" and "0 \<le> lo" and "hi \<le> 65535"
    and "0 < p" and "p \<le> 65535"
  shows "(bindable h p \<longrightarrow> choose_port h reg (Some p) = ([p], Inr p)) \<and>
         (\<not> bindable h p \<longrightarrow>
            choose_port h reg (Some p) =
              (p # fst (find_available_port h reg), snd (find_available_port h reg))) \<and>
         choose_port h reg None = find_available_port h reg \<and>
         ((\<exists>q \<in> {lo..hi}. bindable h q \<and> (\<forall>r \<in> {lo..<q}. \<not> bindable h r) \<and>
              find_available_port h reg = ([lo..q], Inr q)) \<or>
          ((\<forall>r \<in> {lo..hi}. \<not> bindable h r) \<and>
              find_available_port h reg = ([lo..hi], Inl NoAvailablePortError)))"
  using assms(4,5) find_available_port_cases [OF assms(1-3), of h]
  by (simp add: choose_port_def is_port_available_def)

lemma start_follows_choice:
  "fst (start h reg preferred) = fst (choose_port h reg preferred) \<and>
   (case snd (choose_port h reg preferred) of
      Inl e \<Rightarrow> snd (snd (start h reg preferred)) = Inl e
    | Inr q \<Rightarrow> (case snd (snd (start h reg preferred)) of
                 Inl e \<Rightarrow> mdns_register h = Some e
               | Inr info \<Rightarrow> port info = PNum q))"
proof -
  obtain tried r where cp: "choose_port h reg preferred = (tried, r)"
    by (cases "choose_port h reg preferred")
  show ?thesis
    by (cases r; cases "mdns_register h")
       (simp_all add: start_def cp Let_def register_mdns_def new_service_info_def)
qed

subsection \<open>The example machine\<close>

lemma demo_fields:
  "mdns_register (demo_host taken x y) = x"
  "mdns_unregister (demo_host taken x y) = y"
  "mdns_name (demo_registry name) = name"
  "zeroconf (demo_registry name) = False"
  "zeroconf_info (demo_registry name) = False"
  by (simp_all add: demo_host_def demo_registry_def ServiceRegistry_init_def)

lemma choose_port_demo_free:
  "choose_port (demo_host [] x y) (demo_registry name) None = ([7770], Inr 7770)"
  by (simp add: choose_port_def find_available_port_def is_port_available_def
      demo_host_def demo_registry_def ServiceRegistry_init_def upto.simps)

lemma start_demo_unavailable:
  "snd (snd (start (demo_host [] (Some ImportError) None) (demo_registry (Some ''api.local'')) None))
     = Inr (new_service_info (demo_host [] (Some ImportError) None)
              (demo_registry (Some ''api.local'')) 7770)"
  by (simp add: start_def choose_port_demo_free Let_def register_mdns_def demo_fields)

text \<open>On a machine where ports 7770 and 7771 are taken and the range is 7770 to 7779:
  the free preferred port 7775 is chosen at once; the taken preferred port 7770 and no
  preferred port both lead to 7772 after an ascending scan.\<close>

lemma choose_port_examples:
  "choose_port (demo_host [7770, 7771] None None) (demo_registry None) (Some 7775)
     = ([7775], Inr 7775)"
  "choose_port (demo_host [7770, 7771] None None) (demo_registry None) (Some 7770)
     = ([7770, 7770, 7771, 7772], Inr 7772)"
  "choose_port (demo_host [7770, 7771] None None) (demo_registry None) None
     = ([7770, 7771, 7772], Inr 7772)"
  by (simp_all add: choose_port_def find_available_port_def is_port_available_def
      demo_host_def demo_registry_def ServiceRegistry_init_def upto.simps)

subsection \<open>Port allocation\<close>

text \<open>
  Claim C6, at an input where the code departs from it. The preferred port 0 is
  supplied and the bind on port 0 succeeds, yet \<^verbatim>\<open>if preferred_port and ...\<close> reads 0 as
  false: the preferred port is not tried, the range is scanned, and \<^verbatim>\<open>start\<close> returns a
  record with port 7770. The docstring of \<^verbatim>\<open>start\<close> says of \<^verbatim>\<open>preferred_port\<close>: if
  specified, try this port first before scanning range.
\<close>

theorem preferred_port_zero_not_tried:
  "is_port_available (demo_host [] None None) 0 = Inr True \<and>
   choose_port (demo_host [] None None) (demo_registry None) (Some 0) = ([7770], Inr 7770) \<and>
   start (demo_host [] None None) (demo_registry None) (Some 0)
     = ([7770],
        (demo_registry None)\<lparr>service_info := Some
           \<lparr>service_id = PStr ''api'', port = PNum 7770, instance_id = PStr ''u-1'',
            pid = PNum 41, project_context = PDict fmempty,
            verification_token = PStr ''u-2'', start_time = noon,
            status = PStr ''healthy''\<rparr>\<rparr>,
        Inr \<lparr>service_id = PStr ''api'', port = PNum 7770, instance_id = PStr ''u-1'',
             pid = PNum 41, project_context = PDict fmempty,
             verification_token = PStr ''u-2'', start_time = noon,
             status = PStr ''healthy''\<rparr>)"
  by (simp add: start_def Let_def new_service_info_def choose_port_def
      find_available_port_def is_port_available_def demo_host_def demo_registry_def
      ServiceRegistry_init_def upto.simps)

text \<open>Outside the port numbers the bind raises \<^verbatim>\<open>OverflowError\<close>, which leaves \<^verbatim>\<open>start\<close>:
  for the preferred port 70000 no port of the range is tried, and the scan of a range
  that runs past 65535 ends there, although every port of the range up to it is taken.\<close>

lemma out_of_range_port_raises:
  "start (demo_host [] None None) (demo_registry None) (Some 70000)
     = ([70000], demo_registry None, Inl OverflowError)"
  "start (demo_host [65535] None None)
     (ServiceRegistry_init ''api'' (65535, 65537) None None) None
     = ([65535, 65536], ServiceRegistry_init ''api'' (65535, 65537) None None,
        Inl OverflowError)"
  by (simp_all add: start_def choose_port_def find_available_port_def
      is_port_available_def demo_host_def demo_registry_def ServiceRegistry_init_def
      upto.simps)

subsection \<open>The health response before start\<close>

text \<open>
  Claim C10. While the registry has no service record (\<^verbatim>\<open>start\<close> has not been called),
  \<^verbatim>\<open>health_response\<close> returns the dict \<open>{error: Service not started}\<close>; it is a value,
  not an exception.
\<close>

theorem health_response_not_started:
  "service_info reg = None \<Longrightarrow>
   health_response h reg = PDict (fmap_of_list [(''error'', PStr ''Service not started'')])"
  by (simp add: health_response_def)

text \<open>Witness for C10: the registry as \<^verbatim>\<open>__init__\<close> leaves it.\<close>

theorem health_response_not_started_witness:
  "service_info (ServiceRegistry_init ''api'' (7770, 7779) None None) = None \<and>
   health_response (demo_host [] None None) (ServiceRegistry_init ''api'' (7770, 7779) None None)
     = PDict (fmap_of_list [(''error'', PStr ''Service not started'')])"
proof -
  have h: "service_info (ServiceRegistry_init ''api'' (7770, 7779) None None) = None"
    by (simp add: ServiceRegistry_init_def)
  from health_response_not_started [OF h] h show ?thesis by simp
qed

subsection \<open>The announcement\<close>

text \<open>
  Claim C9, as the code has it. When registering the announcement succeeds or the
  mechanism is unavailable (\<^verbatim>\<open>ImportError\<close>), \<^verbatim>\<open>start\<close> tries the same ports and gives
  the same result as for a registry without an announcement name. An exception other
  than \<^verbatim>\<open>ImportError\<close> raised while registering leaves \<^verbatim>\<open>start\<close>, in place of the
  record. After \<^verbatim>\<open>start\<close> on a fresh registry, \<^verbatim>\<open>stop\<close> returns normally unless an
  announcement was registered, and then it raises exactly what unregistering raises.
  (The claim as written says that no failure of the mechanism's calls reaches the
  caller; see the counterexample below.)
\<close>

theorem announcement_failures:
  "(mdns_register h = None \<or> mdns_register h = Some ImportError \<longrightarrow>
      fst (start h reg preferred) = fst (start h (reg\<lparr>mdns_name := None\<rparr>) preferred) \<and>
      snd (snd (start h reg preferred))
        = snd (snd (start h (reg\<lparr>mdns_name := None\<rparr>) preferred))) \<and>
   (mdns_register h = Some e \<and> e \<noteq> ImportError \<and> mdns_name reg = Some (c # cs) \<and>
    snd (choose_port h reg preferred) = Inr q \<longrightarrow>
      snd (snd (start h reg preferred)) = Inl e) \<and>
   stop h' (fst (snd (start h (ServiceRegistry_init sid rng ctx name) preferred)))
     = (if name \<noteq> None \<and> name \<noteq> Some [] \<and> mdns_register h = None \<and>
           (\<exists>q. snd (choose_port h (ServiceRegistry_init sid rng ctx name) preferred) = Inr q)
        then mdns_unregister h' else None)"
proof -
  obtain tried r where cp: "choose_port h reg preferred = (tried, r)"
    by (cases "choose_port h reg preferred")
  have "find_available_port h (reg\<lparr>mdns_name := None\<rparr>) = find_available_port h reg"
    by (simp add: find_available_port_def)
  then have "choose_port h (reg\<lparr>mdns_name := None\<rparr>) preferred = choose_port h reg preferred"
    by (cases preferred) (simp_all add: choose_port_def split: sum.splits bool.splits)
  with cp have cp': "choose_port h (reg\<lparr>mdns_name := None\<rparr>) preferred = (tried, r)"
    by simp
  have a: "mdns_register h = None \<or> mdns_register h = Some ImportError \<longrightarrow>
      fst (start h reg preferred) = fst (start h (reg\<lparr>mdns_name := None\<rparr>) preferred) \<and>
      snd (snd (start h reg preferred))
        = snd (snd (start h (reg\<lparr>mdns_name := None\<rparr>) preferred))"
    by (cases r)
       (auto simp: start_def cp cp' Let_def register_mdns_def new_service_info_def)
  have b: "mdns_register h = Some e \<and> e \<noteq> ImportError \<and> mdns_name reg = Some (c # cs) \<and>
    snd (choose_port h reg preferred) = Inr q \<longrightarrow>
      snd (snd (start h reg preferred)) = Inl e"
    by (cases r) (auto simp: start_def cp Let_def register_mdns_def)
  obtain tried0 r0
    where cp0: "choose_port h (ServiceRegistry_init sid rng ctx name) preferred = (tried0, r0)"
    by (cases "choose_port h (ServiceRegistry_init sid rng ctx name) preferred")
  have flags: "\<And>n. \<not> zeroconf (ServiceRegistry_init sid rng ctx n)"
    "\<And>n. mdns_name (ServiceRegistry_init sid rng ctx n) = n"
    by (simp_all add: ServiceRegistry_init_def)
  have c: "stop h' (fst (snd (start h (ServiceRegistry_init sid rng ctx name) preferred)))
     = (if name \<noteq> None \<and> name \<noteq> Some [] \<and> mdns_register h = None \<and>
           (\<exists>q. snd (choose_port h (ServiceRegistry_init sid rng ctx name) preferred) = Inr q)
        then mdns_unregister h' else None)"
    by (cases r0; cases "mdns_register h")
       (simp_all add: stop_def start_def cp0 flags Let_def register_mdns_def)
  from a b c show ?thesis by blast
qed

text \<open>
  Witness for C9: zeroconf is not installed. \<^verbatim>\<open>start\<close> with the announcement name
  \<open>api.local\<close> returns the record it returns without a name, on port 7770, and a
  following \<^verbatim>\<open>stop\<close> returns normally even where unregistering would raise.
\<close>

theorem announcement_failures_witness:
  "snd (snd (start (demo_host [] (Some ImportError) None)
               (demo_registry (Some ''api.local'')) None))
     = snd (snd (start (demo_host [] (Some ImportError) None)
                   ((demo_registry (Some ''api.local''))\<lparr>mdns_name := None\<rparr>) None)) \<and>
   snd (snd (start (demo_host [] (Some ImportError) None)
               (demo_registry (Some ''api.local'')) None))
     = Inr (new_service_info (demo_host [] (Some ImportError) None)
              (demo_registry (Some ''api.local'')) 7770) \<and>
   stop (demo_host [] None (Some OSError))
     (fst (snd (start (demo_host [] (Some ImportError) None)
                  (ServiceRegistry_init ''api'' (7770, 7779) None (Some ''api.local'')) None)))
     = None"
proof -
  note spec = announcement_failures [of "demo_host [] (Some ImportError) None"
      "demo_registry (Some ''api.local'')" None OSError "CHR ''a''" "''pi.local''" 7770
      "demo_host [] None (Some OSError)" "''api''" "(7770, 7779)" None "Some ''api.local''"]
  have unavailable: "mdns_register (demo_host [] (Some ImportError) None) = Some ImportError"
    by (simp add: demo_fields)
  from spec have "mdns_register (demo_host [] (Some ImportError) None) = None \<or>
      mdns_register (demo_host [] (Some ImportError) None) = Some ImportError \<longrightarrow>
      fst (start (demo_host [] (Some ImportError) None)
             (demo_registry (Some ''api.local'')) None)
        = fst (start (demo_host [] (Some ImportError) None)
                 ((demo_registry (Some ''api.local''))\<lparr>mdns_name := None\<rparr>) None) \<and>
      snd (snd (start (demo_host [] (Some ImportError) None)
                  (demo_registry (Some ''api.local'')) None))
        = snd (snd (start (demo_host [] (Some ImportError) None)
                      ((demo_registry (Some ''api.local''))\<lparr>mdns_name := None\<rparr>) None))"
    by (rule conjunct1)
  with unavailable have 1: "snd (snd (start (demo_host [] (Some ImportError) None)
               (demo_registry (Some ''api.local'')) None))
     = snd (snd (start (demo_host [] (Some ImportError) None)
                   ((demo_registry (Some ''api.local''))\<lparr>mdns_name := None\<rparr>) None))"
    by blast
  from spec have "stop (demo_host [] None (Some OSError))
     (fst (snd (start (demo_host [] (Some ImportError) None)
                  (ServiceRegistry_init ''api'' (7770, 7779) None (Some ''api.local'')) None)))
     = (if Some ''api.local'' \<noteq> None \<and> Some ''api.local'' \<noteq> Some [] \<and>
           mdns_register (demo_host [] (Some ImportError) None) = None \<and>
           (\<exists>q. snd (choose_port (demo_host [] (Some ImportError) None)
                      (ServiceRegistry_init ''api'' (7770, 7779) None (Some ''api.local''))
                      None) = Inr q)
        then mdns_unregister (demo_host [] None (Some OSError)) else None)"
    by (rule conjunct2 [THEN conjunct2])
  with unavailable have 3: "stop (demo_host [] None (Some OSError))
     (fst (snd (start (demo_host [] (Some ImportError) None)
                  (ServiceRegistry_init ''api'' (7770, 7779) None (Some ''api.local'')) None)))
     = None"
    by simp
  from 1 start_demo_unavailable 3 show ?thesis by blast
qed

text \<open>
  Counterexample to C9 as written: without an announcement name \<^verbatim>\<open>start\<close> returns a
  record; with the name \<open>api.local\<close> and a registration call that raises \<^verbatim>\<open>OSError\<close>,
  \<^verbatim>\<open>start\<close> raises \<^verbatim>\<open>OSError\<close> instead; and after a successful registration, \<^verbatim>\<open>stop\<close>
  raises the \<^verbatim>\<open>OSError\<close> of a failing unregistration.
\<close>

theorem announcement_error_counterexample:
  "snd (snd (start (demo_host [] None None) (demo_registry None) None))
     = Inr (new_service_info (demo_host [] None None) (demo_registry None) 7770) \<and>
   snd (snd (start (demo_host [] (Some OSError) None) (demo_registry (Some ''api.local'')) None))
     = Inl OSError \<and>
   stop (demo_host [] None (Some OSError))
     (fst (snd (start (demo_host [] None None) (demo_registry (Some ''api.local'')) None)))
     = Some OSError"
  by (simp add: start_def choose_port_demo_free Let_def register_mdns_def stop_def
      demo_fields)

end
